theory Spec2Isabelle
  imports Main "HOL-Library.Sublist" "HOL-Library.AList"
begin

section \<open>The installer and its environment\<close>

text \<open>
  This theory embeds \<^verbatim>\<open>install_rimworld_access.py\<close>: one Python module of eight
  functions that find the game directory, ask a release-hosting API for an archive,
  download and unpack it, move the unpacked folder into the game's \<^verbatim>\<open>Mods\<close> directory
  and patch \<^verbatim>\<open>ModsConfig.xml\<close>.

  Every function of the module acts on the outside world, so each one is a function
  from a \<open>world\<close> to a result and a new \<open>world\<close>. A result is \<open>exn + 'a\<close>: \<open>Inl e\<close> is
  the exception \<open>e\<close> leaving the function, \<open>Inr v\<close> the value it returns. The world holds
  what the program can observe: the filesystem, the console, and the answers of the
  libraries the program calls (HTTP, zip, XML), which are parameters of the world.
\<close>

subsection \<open>Strings\<close>

text \<open>
  Python strings are modelled as \<open>string\<close>, a list of 8-bit characters: the UTF-8 bytes
  of the text. The string tests of the program compare with ASCII constants, and no
  character outside ASCII lower-cases to one of the ASCII letters of those constants, so
  lower-casing the ASCII letters byte by byte decides the tests as \<^verbatim>\<open>str.lower\<close> does.
\<close>

definition lower_char :: "char \<Rightarrow> char" where
  "lower_char c =
     (case map_of (zip ''ABCDEFGHIJKLMNOPQRSTUVWXYZ'' ''abcdefghijklmnopqrstuvwxyz'') c of
        Some d \<Rightarrow> d
      | None \<Rightarrow> c)"

definition lower :: "string \<Rightarrow> string" where
  "lower s = map lower_char s"

text \<open>\<^verbatim>\<open>sub in s\<close>: \<open>sub\<close> occurs in \<open>s\<close> as a contiguous substring.\<close>

fun contains :: "string \<Rightarrow> string \<Rightarrow> bool" where
  "contains sub [] = (sub = [])"
| "contains sub (c # cs) = (prefix sub (c # cs) \<or> contains sub cs)"

text \<open>\<^verbatim>\<open>s.endswith(suf)\<close>.\<close>

definition endswith :: "string \<Rightarrow> string \<Rightarrow> bool" where
  "endswith s suf = prefix (rev suf) (rev s)"

text \<open>\<^verbatim>\<open>s.strip(chars)\<close>: drops the characters of \<open>chars\<close> from both ends.\<close>

definition strip_chars :: "string \<Rightarrow> string \<Rightarrow> string" where
  "strip_chars chars s =
     rev (dropWhile (\<lambda>c. c \<in> set chars) (rev (dropWhile (\<lambda>c. c \<in> set chars) s)))"

text \<open>
  \<^verbatim>\<open>s.strip()\<close> drops the white space of Unicode from both ends: the characters for
  which \<^verbatim>\<open>str.isspace\<close> holds. In UTF-8 they are the bytes \<open>0x09\<close> to \<open>0x0D\<close>, \<open>0x1C\<close> to
  \<open>0x1F\<close> and \<open>0x20\<close>, and these sequences: \<open>C2 85\<close> (U+0085), \<open>C2 A0\<close> (U+00A0, the
  no-break space), \<open>E1 9A 80\<close> (U+1680), \<open>E2 80 80\<close> to \<open>E2 80 8A\<close> (U+2000 to U+200A),
  \<open>E2 80 A8\<close> and \<open>E2 80 A9\<close> (U+2028, U+2029), \<open>E2 80 AF\<close> (U+202F), \<open>E2 81 9F\<close>
  (U+205F) and \<open>E3 80 80\<close> (U+3000). A sequence at the start or the end of the bytes of a
  text is the first or the last character of the text, since no character's bytes
  begin or end inside another's.
\<close>

definition whitespace :: "string list" where
  "whitespace =
     [[CHR '' ''], [CHR 0x09], [CHR 0x0A], [CHR 0x0B], [CHR 0x0C], [CHR 0x0D],
      [CHR 0x1C], [CHR 0x1D], [CHR 0x1E], [CHR 0x1F],
      [CHR 0xC2, CHR 0x85], [CHR 0xC2, CHR 0xA0], [CHR 0xE1, CHR 0x9A, CHR 0x80],
      [CHR 0xE2, CHR 0x80, CHR 0x80], [CHR 0xE2, CHR 0x80, CHR 0x81],
      [CHR 0xE2, CHR 0x80, CHR 0x82], [CHR 0xE2, CHR 0x80, CHR 0x83],
      [CHR 0xE2, CHR 0x80, CHR 0x84], [CHR 0xE2, CHR 0x80, CHR 0x85],
      [CHR 0xE2, CHR 0x80, CHR 0x86], [CHR 0xE2, CHR 0x80, CHR 0x87],
      [CHR 0xE2, CHR 0x80, CHR 0x88], [CHR 0xE2, CHR 0x80, CHR 0x89],
      [CHR 0xE2, CHR 0x80, CHR 0x8A], [CHR 0xE2, CHR 0x80, CHR 0xA8],
      [CHR 0xE2, CHR 0x80, CHR 0xA9], [CHR 0xE2, CHR 0x80, CHR 0xAF],
      [CHR 0xE2, CHR 0x81, CHR 0x9F], [CHR 0xE3, CHR 0x80, CHR 0x80]]"

text \<open>
  \<open>drop_leading seqs s\<close> takes from the start of \<open>s\<close> every sequence of \<open>seqs\<close>, one after
  the other, until none is there.
\<close>

function drop_leading :: "string list \<Rightarrow> string \<Rightarrow> string" where
  "drop_leading seqs s =
     (case find (\<lambda>ws. ws \<noteq> [] \<and> prefix ws s) seqs of
        None \<Rightarrow> s
      | Some ws \<Rightarrow> drop_leading seqs (drop (length ws) s))"
  by pat_completeness auto

termination
proof (relation "measure (\<lambda>(seqs, s). length s)")
  fix seqs :: "string list" and s ws :: string
  assume "find (\<lambda>ws. ws \<noteq> [] \<and> prefix ws s) seqs = Some ws"
  then have "ws \<noteq> []" and "prefix ws s"
    by (auto simp: find_Some_iff)
  then have "s \<noteq> []" by auto
  with \<open>ws \<noteq> []\<close> show "((seqs, drop (length ws) s), (seqs, s)) \<in> measure (\<lambda>(seqs, s). length s)"
    by simp
qed simp

declare drop_leading.simps [simp del]

definition strip :: "string \<Rightarrow> string" where
  "strip s = rev (drop_leading (map rev whitespace) (rev (drop_leading whitespace s)))"

subsection \<open>Exceptions\<close>

text \<open>
  The program tells two kinds of exception apart: those of class \<^verbatim>\<open>Exception\<close>, which
  every \<^verbatim>\<open>except Exception\<close> handler catches, and \<^verbatim>\<open>KeyboardInterrupt\<close>, which only
  \<^verbatim>\<open>main\<close> catches. An \<^verbatim>\<open>Exception\<close> carries the name of its class.
\<close>

datatype exn = KeyboardInterrupt | Exception string

subsection \<open>JSON values and the Python operations on them\<close>

text \<open>
  \<^verbatim>\<open>response.json()\<close> returns a Python value built of \<^verbatim>\<open>None\<close>, booleans, numbers,
  strings, lists and dictionaries. A dictionary is the list of its items in insertion
  order, its keys distinct. The program never computes with a number, so integers
  stand for all of them. \<open>JNull\<close> is Python's \<^verbatim>\<open>None\<close>.
\<close>

datatype json =
    JNull
  | JBool bool
  | JNum int
  | JStr string
  | JArr "json list"
  | JObj "(string \<times> json) list"

text \<open>Truth value of a Python value, as \<^verbatim>\<open>if not x\<close> tests it.\<close>

fun py_truthy :: "json \<Rightarrow> bool" where
  "py_truthy JNull = False"
| "py_truthy (JBool b) = b"
| "py_truthy (JNum n) = (n \<noteq> 0)"
| "py_truthy (JStr s) = (s \<noteq> [])"
| "py_truthy (JArr xs) = (xs \<noteq> [])"
| "py_truthy (JObj kvs) = (kvs \<noteq> [])"

text \<open>\<^verbatim>\<open>x.get(k, default)\<close>: only a dictionary has the method.\<close>

fun py_get :: "json \<Rightarrow> string \<Rightarrow> json \<Rightarrow> exn + json" where
  "py_get (JObj kvs) k dflt = Inr (case map_of kvs k of Some v \<Rightarrow> v | None \<Rightarrow> dflt)"
| "py_get _ k dflt = Inl (Exception ''AttributeError'')"

text \<open>\<^verbatim>\<open>x[k]\<close> for a string key \<open>k\<close>.\<close>

fun py_getitem :: "json \<Rightarrow> string \<Rightarrow> exn + json" where
  "py_getitem (JObj kvs) k =
     (case map_of kvs k of Some v \<Rightarrow> Inr v | None \<Rightarrow> Inl (Exception ''KeyError''))"
| "py_getitem _ k = Inl (Exception ''TypeError'')"

text \<open>\<^verbatim>\<open>x.lower()\<close> and \<^verbatim>\<open>x.endswith(suf)\<close>: only a string has the methods.\<close>

fun py_lower :: "json \<Rightarrow> exn + string" where
  "py_lower (JStr s) = Inr (lower s)"
| "py_lower _ = Inl (Exception ''AttributeError'')"

fun py_endswith :: "json \<Rightarrow> string \<Rightarrow> exn + bool" where
  "py_endswith (JStr s) suf = Inr (endswith s suf)"
| "py_endswith _ suf = Inl (Exception ''AttributeError'')"

text \<open>
  \<^verbatim>\<open>for x in v\<close>: a list gives its elements, a dictionary its keys, a string its
  characters; nothing else can be iterated.
\<close>

fun py_iter :: "json \<Rightarrow> exn + json list" where
  "py_iter (JArr xs) = Inr xs"
| "py_iter (JObj kvs) = Inr (map (\<lambda>kv. JStr (fst kv)) kvs)"
| "py_iter (JStr s) = Inr (map (\<lambda>c. JStr [c]) s)"
| "py_iter _ = Inl (Exception ''TypeError'')"

text \<open>
  A list comprehension \<^verbatim>\<open>[r for r in rs if test(r)]\<close> whose test may raise: the test
  runs on every element in order, and the first exception ends the comprehension.
\<close>

fun py_filter :: "('a \<Rightarrow> exn + bool) \<Rightarrow> 'a list \<Rightarrow> exn + 'a list" where
  "py_filter test [] = Inr []"
| "py_filter test (r # rs) =
     (case test r of
        Inl e \<Rightarrow> Inl e
      | Inr b \<Rightarrow>
          (case py_filter test rs of
             Inl e \<Rightarrow> Inl e
           | Inr keep \<Rightarrow> Inr (if b then r # keep else keep)))"

subsection \<open>The filesystem\<close>

text \<open>
  The filesystem is a tree. A directory holds its entries in the order they were made;
  the order in which \<^verbatim>\<open>iterdir\<close> lists them is the platform's. A path is the list of
  names from the root of the tree: a relative path of the program is written from the working
  directory of the world. The tree has no permissions, locks or quotas: an operation
  fails only when an entry is missing or of the wrong kind, and every such failure is
  an \<^verbatim>\<open>OSError\<close>.
\<close>

type_synonym path = "string list"

datatype node = File string | Dir "(string \<times> node) list"

fun lookup :: "node \<Rightarrow> path \<Rightarrow> node option" where
  "lookup n [] = Some n"
| "lookup (File b) (c # cs) = None"
| "lookup (Dir es) (c # cs) =
     (case map_of es c of None \<Rightarrow> None | Some n \<Rightarrow> lookup n cs)"

text \<open>
  \<open>set_at p v t\<close> puts \<open>v\<close> at \<open>p\<close> (\<open>None\<close> removes the entry); it changes nothing when
  the parent of \<open>p\<close> is not a directory of \<open>t\<close>.
\<close>

fun set_at :: "path \<Rightarrow> node option \<Rightarrow> node \<Rightarrow> node" where
  "set_at [] v n = (case v of None \<Rightarrow> n | Some n' \<Rightarrow> n')"
| "set_at [c] v (Dir es) =
     Dir (case v of None \<Rightarrow> AList.delete c es | Some n' \<Rightarrow> AList.update c n' es)"
| "set_at (c # cs) v (Dir es) =
     Dir (case map_of es c of
            None \<Rightarrow> es
          | Some n \<Rightarrow> AList.update c (set_at cs v n) es)"
| "set_at (c # cs) v (File b) = File b"

definition exists_path :: "node \<Rightarrow> path \<Rightarrow> bool" where
  "exists_path t p = (lookup t p \<noteq> None)"

definition is_dir :: "node \<Rightarrow> path \<Rightarrow> bool" where
  "is_dir t p = (case lookup t p of Some (Dir es) \<Rightarrow> True | _ \<Rightarrow> False)"

definition has_parent :: "node \<Rightarrow> path \<Rightarrow> bool" where
  "has_parent t p = (p \<noteq> [] \<and> is_dir t (butlast p))"

text \<open>\<^verbatim>\<open>p.name\<close>: the last name of the path.\<close>

definition name_of :: "path \<Rightarrow> string" where
  "name_of p = (if p = [] then [] else last p)"

definition os_error :: exn where
  "os_error = Exception ''OSError''"

text \<open>\<^verbatim>\<open>p.mkdir(exist_ok=True)\<close>.\<close>

definition mkdir_exist_ok :: "path \<Rightarrow> node \<Rightarrow> exn + node" where
  "mkdir_exist_ok p t =
     (case lookup t p of
        Some (Dir es) \<Rightarrow> Inr t
      | Some (File b) \<Rightarrow> Inl os_error
      | None \<Rightarrow> if has_parent t p then Inr (set_at p (Some (Dir [])) t) else Inl os_error)"

text \<open>\<^verbatim>\<open>os.makedirs\<close> as \<^verbatim>\<open>zipfile\<close> calls it: every missing directory of the path is made.\<close>

fun makedirs :: "path \<Rightarrow> node \<Rightarrow> exn + node" where
  "makedirs [] (Dir es) = Inr (Dir es)"
| "makedirs [] (File b) = Inl os_error"
| "makedirs (c # cs) (Dir es) =
     (case makedirs cs (case map_of es c of None \<Rightarrow> Dir [] | Some n \<Rightarrow> n) of
        Inl e \<Rightarrow> Inl e
      | Inr n' \<Rightarrow> Inr (Dir (AList.update c n' es)))"
| "makedirs (c # cs) (File b) = Inl os_error"

text \<open>\<^verbatim>\<open>open(p, 'wb')\<close>: makes the file, or empties the one that is there.\<close>

definition open_wb :: "path \<Rightarrow> node \<Rightarrow> exn + node" where
  "open_wb p t =
     (if is_dir t p \<or> \<not> has_parent t p then Inl os_error
      else Inr (set_at p (Some (File [])) t))"

text \<open>\<^verbatim>\<open>f.write(chunk)\<close> on the file opened at \<open>p\<close>.\<close>

definition append_file :: "path \<Rightarrow> string \<Rightarrow> node \<Rightarrow> node" where
  "append_file p chunk t =
     (case lookup t p of
        Some (File b) \<Rightarrow> set_at p (Some (File (b @ chunk))) t
      | _ \<Rightarrow> t)"

definition write_file :: "path \<Rightarrow> string \<Rightarrow> node \<Rightarrow> exn + node" where
  "write_file p b t =
     (case open_wb p t of Inl e \<Rightarrow> Inl e | Inr t' \<Rightarrow> Inr (append_file p b t'))"

definition read_file :: "path \<Rightarrow> node \<Rightarrow> exn + string" where
  "read_file p t = (case lookup t p of Some (File b) \<Rightarrow> Inr b | _ \<Rightarrow> Inl os_error)"

text \<open>\<^verbatim>\<open>p.unlink(missing_ok=True)\<close>: a directory cannot be unlinked.\<close>

definition unlink_missing_ok :: "path \<Rightarrow> node \<Rightarrow> exn + node" where
  "unlink_missing_ok p t =
     (case lookup t p of
        None \<Rightarrow> Inr t
      | Some (File b) \<Rightarrow> Inr (set_at p None t)
      | Some (Dir es) \<Rightarrow> Inl os_error)"

text \<open>\<^verbatim>\<open>shutil.rmtree(p)\<close>, and the same with \<^verbatim>\<open>ignore_errors=True\<close>.\<close>

definition rmtree :: "path \<Rightarrow> node \<Rightarrow> exn + node" where
  "rmtree p t = (if is_dir t p then Inr (set_at p None t) else Inl os_error)"

definition rmtree_ignore_errors :: "path \<Rightarrow> node \<Rightarrow> node" where
  "rmtree_ignore_errors p t = (case rmtree p t of Inl e \<Rightarrow> t | Inr t' \<Rightarrow> t')"

text \<open>
  \<^verbatim>\<open>p.iterdir()\<close>: the paths of the entries of a directory, in the order of the platform,
  which Python leaves open. The platform is a key \<open>key\<close>: in the filesystem \<open>t\<close> the
  directory \<open>p\<close> lists its entries by ascending \<open>key t p\<close> of their names, entries of equal
  key in the order they were made. A key that tells all names apart gives any order
  wanted, and the key may change with the filesystem.
\<close>

type_synonym listing = "node \<Rightarrow> path \<Rightarrow> string \<Rightarrow> nat"

definition iterdir :: "listing \<Rightarrow> path \<Rightarrow> node \<Rightarrow> exn + path list" where
  "iterdir key p t =
     (case lookup t p of
        Some (Dir es) \<Rightarrow> Inr (map (\<lambda>c. p @ [c]) (sort_key (key t p) (map fst es)))
      | _ \<Rightarrow> Inl os_error)"

text \<open>
  \<^verbatim>\<open>shutil.move(src, dst)\<close>: into \<open>dst\<close> when that is a directory, onto \<open>dst\<close> otherwise.
  It refuses a target that exists inside a directory \<open>dst\<close>, a target inside \<open>src\<close>
  itself, and a directory moved onto a file.
\<close>

definition move :: "path \<Rightarrow> path \<Rightarrow> node \<Rightarrow> exn + node" where
  "move src dst t =
     (let real_dst = (if is_dir t dst then dst @ [name_of src] else dst) in
      case lookup t src of
        None \<Rightarrow> Inl os_error
      | Some n \<Rightarrow>
          if is_dir t dst \<and> exists_path t real_dst then Inl os_error
          else if prefix src real_dst then Inl os_error
          else if is_dir t src \<and> exists_path t real_dst then Inl os_error
          else if \<not> has_parent t real_dst then Inl os_error
          else Inr (set_at real_dst (Some n) (set_at src None t)))"

text \<open>\<^verbatim>\<open>shutil.copy2(src, dst)\<close>: into \<open>dst\<close> when that is a directory.\<close>

definition copy2 :: "path \<Rightarrow> path \<Rightarrow> node \<Rightarrow> exn + node" where
  "copy2 src dst t =
     (let target = (if is_dir t dst then dst @ [name_of src] else dst) in
      case lookup t src of
        Some (File b) \<Rightarrow> if target = src then Inl os_error else write_file target b t
      | _ \<Rightarrow> Inl os_error)"

subsection \<open>Archives\<close>

text \<open>
  A zip archive decodes to the list of its members, each a directory or a file with
  its path inside the archive. \<^verbatim>\<open>extractall(d)\<close> writes the members below \<open>d\<close> in
  order, making the directories a member needs; the first failure ends it and leaves
  what was written so far.
\<close>

datatype member = MDir path | MFile path string

fun extract_member :: "path \<Rightarrow> member \<Rightarrow> node \<Rightarrow> exn + node" where
  "extract_member d (MDir p) t = makedirs (d @ p) t"
| "extract_member d (MFile p b) t =
     (case makedirs (d @ butlast p) t of
        Inl e \<Rightarrow> Inl e
      | Inr t' \<Rightarrow> write_file (d @ p) b t')"

fun extractall :: "path \<Rightarrow> member list \<Rightarrow> node \<Rightarrow> exn option \<times> node" where
  "extractall d [] t = (None, t)"
| "extractall d (m # ms) t =
     (case extract_member d m t of
        Inl e \<Rightarrow> (Some e, t)
      | Inr t' \<Rightarrow> extractall d ms t')"

subsection \<open>XML documents\<close>

text \<open>An element of \<^verbatim>\<open>xml.etree.ElementTree\<close>: tag, attributes, text, tail, children.\<close>

datatype element =
  Element (el_tag: string) (el_attrib: "(string \<times> string) list")
    (el_text: "string option") (el_tail: "string option") (el_children: "element list")

subsection \<open>The console\<close>

text \<open>
  A printed line is the list of the pieces its f-string is made of: literal text and
  the values put into it. \<open>Percent d n\<close> is the progress figure computed from \<open>d\<close> bytes
  of \<open>n\<close>. What \<^verbatim>\<open>input\<close> reads is a line, the end of the input, or an interrupt.
\<close>

datatype frag = Str string | Val json | Err exn | Pth path | Percent int int

type_synonym line = "frag list"

datatype stdin_event = Line string | EOF | Interrupt

subsection \<open>The world\<close>

text \<open>
  An HTTP download answers with the outcome of reading its size
  (\<^verbatim>\<open>int(response.headers.get('content-length', 0))\<close>), the chunks it delivers and the
  exception, if any, that ends the stream after them.
\<close>

record response =
  total_size :: "exn + int"
  chunks :: "string list"
  stream_end :: "exn option"

text \<open>
  \<open>http_json url\<close> is the outcome of \<^verbatim>\<open>requests.get(url)\<close>, \<^verbatim>\<open>raise_for_status()\<close> and
  \<^verbatim>\<open>json()\<close>; \<open>http_stream url\<close> that of \<^verbatim>\<open>requests.get(url, stream=True)\<close> and
  \<^verbatim>\<open>raise_for_status()\<close>; \<open>unzip\<close> decodes the bytes of an archive; \<open>listing_key\<close> is
  the order in which the platform lists a directory; \<open>xml_parse\<close> and \<open>xml_serialize\<close>
  are \<^verbatim>\<open>ET.parse\<close> and \<^verbatim>\<open>tree.write\<close> on bytes; \<open>path_of\<close> is \<^verbatim>\<open>Path\<close> applied to what the
  user typed, resolved from the working directory.
\<close>

record world =
  fs :: node
  cwd :: path
  home :: path
  stdin :: "nat \<Rightarrow> stdin_event"
  stdout :: "line list"
  http_json :: "string \<Rightarrow> exn + json"
  http_stream :: "string \<Rightarrow> exn + response"
  unzip :: "string \<Rightarrow> exn + member list"
  listing_key :: listing
  xml_parse :: "string \<Rightarrow> exn + element"
  xml_serialize :: "element \<Rightarrow> string"
  path_of :: "string \<Rightarrow> path"

text \<open>\<^verbatim>\<open>print(...)\<close> adds a line to the console.\<close>

definition say :: "line \<Rightarrow> world \<Rightarrow> world" where
  "say l w = w\<lparr>stdout := stdout w @ [l]\<rparr>"

text \<open>\<^verbatim>\<open>input(prompt)\<close> prints the prompt and reads the next event of the input.\<close>

definition input_line :: "string \<Rightarrow> world \<Rightarrow> (exn + string) \<times> world" where
  "input_line prompt w =
     (let w' = (say [Str prompt] w)\<lparr>stdin := \<lambda>n. stdin w (Suc n)\<rparr> in
      case stdin w 0 of
        Line s \<Rightarrow> (Inr s, w')
      | EOF \<Rightarrow> (Inl (Exception ''EOFError''), w')
      | Interrupt \<Rightarrow> (Inl KeyboardInterrupt, w'))"

text \<open>
  \<^verbatim>\<open>try: ... except Exception as e: ...\<close>: the handler takes over from an exception of
  class \<^verbatim>\<open>Exception\<close>; a \<^verbatim>\<open>KeyboardInterrupt\<close> passes through.
\<close>

definition catch_exception ::
  "(exn + 'a) \<times> world \<Rightarrow> (exn \<Rightarrow> world \<Rightarrow> (exn + 'a) \<times> world) \<Rightarrow> (exn + 'a) \<times> world" where
  "catch_exception r handler =
     (case r of
        (Inl (Exception c), w) \<Rightarrow> handler (Exception c) w
      | (Inl KeyboardInterrupt, w) \<Rightarrow> (Inl KeyboardInterrupt, w)
      | (Inr v, w) \<Rightarrow> (Inr v, w))"

section \<open>The functions of the module\<close>

subsection \<open>\<^verbatim>\<open>find_rimworld_directory\<close>\<close>

definition default_path :: path where
  "default_path =
     [''C:'', ''Program Files (x86)'', ''Steam'', ''steamapps'', ''common'', ''RimWorld'']"

text \<open>
  The \<^verbatim>\<open>while True\<close> loop of the function. It ends only when \<^verbatim>\<open>input\<close> raises or the
  path typed is accepted, so it is a partial function: \<open>None\<close> is the run that prompts
  for ever.
\<close>

partial_function (option) prompt_loop :: "world \<Rightarrow> ((exn + path) \<times> world) option" where
  "prompt_loop w =
     (case input_line ''Please enter the path to your RimWorld installation: '' w of
        (Inl e, w1) \<Rightarrow> Some (Inl e, w1)
      | (Inr s, w1) \<Rightarrow>
          (let user_path = strip_chars [CHR 0x27] (strip_chars [CHR 0x22] s);
               path = path_of w1 user_path
           in if exists_path (fs w1) path \<and> is_dir (fs w1) path then
                if exists_path (fs w1) (path @ [''RimWorldWin64.exe''])
                   \<or> exists_path (fs w1) (path @ [''RimWorldWin.exe''])
                then Some (Inr path, say [Str ''RimWorld installation verified at: '', Pth path] w1)
                else prompt_loop
                  (say [Str ''This doesn't appear to be a valid RimWorld installation directory.''] w1)
              else prompt_loop (say [Str ''Directory not found. Please try again.''] w1)))"

declare prompt_loop.simps [code]

definition find_rimworld_directory :: "world \<Rightarrow> ((exn + path) \<times> world) option" where
  "find_rimworld_directory w =
     (if exists_path (fs w) default_path \<and> is_dir (fs w) default_path
      then Some (Inr default_path, say [Str ''Found RimWorld at: '', Pth default_path] w)
      else prompt_loop
        (say [Str ''RimWorld not found at default location: '', Pth default_path] w))"

subsection \<open>\<^verbatim>\<open>download_file\<close>\<close>

text \<open>\<^verbatim>\<open>requests\<close> accepts a string as the URL and raises on any other value.\<close>

definition requests_get_stream :: "world \<Rightarrow> json \<Rightarrow> exn + response" where
  "requests_get_stream w url =
     (case url of JStr s \<Rightarrow> http_stream w s | _ \<Rightarrow> Inl (Exception ''MissingSchema''))"

text \<open>The loop over \<^verbatim>\<open>response.iter_content\<close>: an empty chunk is skipped.\<close>

fun write_chunks :: "path \<Rightarrow> int \<Rightarrow> string list \<Rightarrow> int \<Rightarrow> world \<Rightarrow> world" where
  "write_chunks destination total_bytes [] downloaded w = w"
| "write_chunks destination total_bytes (chunk # rest) downloaded w =
     (if chunk \<noteq> [] then
        (let w1 = w\<lparr>fs := append_file destination chunk (fs w)\<rparr>;
             downloaded' = downloaded + int (length chunk);
             w2 = (if total_bytes > 0
                   then say [Str (CHR 0x0D # ''Progress: ''), Percent downloaded' total_bytes, Str ''%''] w1
                   else w1)
         in write_chunks destination total_bytes rest downloaded' w2)
      else write_chunks destination total_bytes rest downloaded w)"

definition download_body :: "json \<Rightarrow> path \<Rightarrow> world \<Rightarrow> (exn + bool) \<times> world" where
  "download_body url destination w =
     (let w1 = say [Str ''Downloading from '', Val url, Str ''...''] w in
      case requests_get_stream w1 url of
        Inl e \<Rightarrow> (Inl e, w1)
      | Inr response \<Rightarrow>
          (case total_size response of
             Inl e \<Rightarrow> (Inl e, w1)
           | Inr total_bytes \<Rightarrow>
               (case open_wb destination (fs w1) of
                  Inl e \<Rightarrow> (Inl e, w1)
                | Inr t \<Rightarrow>
                    (let w2 = write_chunks destination total_bytes (chunks response) 0 (w1\<lparr>fs := t\<rparr>) in
                     case stream_end response of
                       Some e \<Rightarrow> (Inl e, w2)
                     | None \<Rightarrow> (Inr True, say [Str (CHR 0x0A # ''Download complete!'')] w2)))))"

definition download_file :: "json \<Rightarrow> path \<Rightarrow> world \<Rightarrow> (exn + bool) \<times> world" where
  "download_file url destination w =
     catch_exception (download_body url destination w)
       (\<lambda>e w'. (Inr False, say [Str (CHR 0x0A # ''Error downloading file: ''), Err e] w'))"

subsection \<open>\<^verbatim>\<open>get_latest_github_release\<close>\<close>

definition api_url :: "string \<Rightarrow> string \<Rightarrow> string" where
  "api_url repo rest = ''https://api.github.com/repos/'' @ repo @ rest"

text \<open>The tests of the two list comprehensions.\<close>

definition is_beta :: "json \<Rightarrow> exn + bool" where
  "is_beta r =
     (case py_get r ''tag_name'' (JStr []) of
        Inl e \<Rightarrow> Inl e
      | Inr tag \<Rightarrow> (case py_lower tag of Inl e \<Rightarrow> Inl e | Inr s \<Rightarrow> Inr (contains ''-beta'' s)))"

definition is_dev :: "json \<Rightarrow> exn + bool" where
  "is_dev r =
     (case py_get r ''tag_name'' (JStr []) of
        Inl e \<Rightarrow> Inl e
      | Inr tag \<Rightarrow> (case py_lower tag of Inl e \<Rightarrow> Inl e | Inr s \<Rightarrow> Inr (s = ''dev'')))"

text \<open>The loop over the assets of the selected release.\<close>

fun find_zip_asset :: "string \<Rightarrow> json \<Rightarrow> json list \<Rightarrow> world \<Rightarrow> (exn + json) \<times> world" where
  "find_zip_asset repo latest_release [] w =
     (Inr JNull, say [Str ''No zip file found in latest release for '', Str repo] w)"
| "find_zip_asset repo latest_release (asset # rest) w =
     (case py_getitem asset ''name'' of
        Inl e \<Rightarrow> (Inl e, w)
      | Inr file_name \<Rightarrow>
          (case py_endswith file_name ''.zip'' of
             Inl e \<Rightarrow> (Inl e, w)
           | Inr is_zip \<Rightarrow>
               if is_zip then
                 (case py_get latest_release ''tag_name'' (JStr ''unknown'') of
                    Inl e \<Rightarrow> (Inl e, w)
                  | Inr tag \<Rightarrow>
                      (case py_get latest_release ''name'' (JStr []) of
                         Inl e \<Rightarrow> (Inl e, w)
                       | Inr title \<Rightarrow>
                           (let w1 = say [Str ''Found release: '', Val tag, Str '' - '', Val title] w in
                            case py_getitem asset ''browser_download_url'' of
                              Inl e \<Rightarrow> (Inl e, w1)
                            | Inr url \<Rightarrow> (Inr url, w1))))
               else find_zip_asset repo latest_release rest w))"

text \<open>The part of the function after the release is selected.\<close>

definition zip_url_of :: "string \<Rightarrow> json \<Rightarrow> world \<Rightarrow> (exn + json) \<times> world" where
  "zip_url_of repo latest_release w =
     (case py_get latest_release ''assets'' (JArr []) of
        Inl e \<Rightarrow> (Inl e, w)
      | Inr a \<Rightarrow>
          (case py_iter a of
             Inl e \<Rightarrow> (Inl e, w)
           | Inr assets \<Rightarrow> find_zip_asset repo latest_release assets w))"

text \<open>
  The two comprehensions and what follows each: no match returns \<^verbatim>\<open>None\<close> with the
  message given, a match goes on with the first release kept.
\<close>

definition first_matching ::
  "(json \<Rightarrow> exn + bool) \<Rightarrow> line \<Rightarrow> string \<Rightarrow> json \<Rightarrow> world \<Rightarrow> (exn + json) \<times> world" where
  "first_matching test none_found repo releases w =
     (case py_iter releases of
        Inl e \<Rightarrow> (Inl e, w)
      | Inr rs \<Rightarrow>
          (case py_filter test rs of
             Inl e \<Rightarrow> (Inl e, w)
           | Inr [] \<Rightarrow> (Inr JNull, say none_found w)
           | Inr (latest_release # others) \<Rightarrow> zip_url_of repo latest_release w))"

definition release_body :: "string \<Rightarrow> string \<Rightarrow> world \<Rightarrow> (exn + json) \<times> world" where
  "release_body repo release_type w =
     (if release_type = ''stable'' then
        (case http_json w (api_url repo ''/releases/latest'') of
           Inl e \<Rightarrow> (Inl e, w)
         | Inr latest_release \<Rightarrow> zip_url_of repo latest_release w)
      else
        (case http_json w (api_url repo ''/releases'') of
           Inl e \<Rightarrow> (Inl e, w)
         | Inr releases \<Rightarrow>
             if \<not> py_truthy releases then
               (Inr JNull, say [Str ''No releases found for '', Str repo] w)
             else if release_type = ''beta'' then
               first_matching is_beta [Str ''No beta releases found for '', Str repo]
                 repo releases w
             else if release_type = ''dev'' then
               first_matching is_dev
                 [Str ''No 'dev' tag found for '', Str repo]
                 repo releases w
             else (Inr JNull, say [Str ''Invalid release_type: '', Str release_type] w)))"

text \<open>The handler of the function: it prints the exception and returns \<^verbatim>\<open>None\<close>.\<close>

definition report_fetch_error :: "exn \<Rightarrow> world \<Rightarrow> (exn + json) \<times> world" where
  "report_fetch_error e w =
     (Inr JNull, say [Str ''Error fetching release info from GitHub: '', Err e] w)"

definition get_latest_github_release :: "string \<Rightarrow> string \<Rightarrow> world \<Rightarrow> (exn + json) \<times> world" where
  "get_latest_github_release repo release_type w =
     catch_exception (release_body repo release_type w) report_fetch_error"

subsection \<open>\<^verbatim>\<open>extract_zip\<close>\<close>

definition extract_body :: "path \<Rightarrow> path \<Rightarrow> world \<Rightarrow> (exn + bool) \<times> world" where
  "extract_body zip_path extract_to w =
     (let w1 = say [Str ''Extracting '', Str (name_of zip_path), Str ''...''] w in
      case read_file zip_path (fs w1) of
        Inl e \<Rightarrow> (Inl e, w1)
      | Inr bytes \<Rightarrow>
          (case unzip w1 bytes of
             Inl e \<Rightarrow> (Inl e, w1)
           | Inr members \<Rightarrow>
               (case extractall extract_to members (fs w1) of
                  (Some e, t) \<Rightarrow> (Inl e, w1\<lparr>fs := t\<rparr>)
                | (None, t) \<Rightarrow> (Inr True, say [Str ''Extraction complete!''] (w1\<lparr>fs := t\<rparr>)))))"

definition extract_zip :: "path \<Rightarrow> path \<Rightarrow> world \<Rightarrow> (exn + bool) \<times> world" where
  "extract_zip zip_path extract_to w =
     catch_exception (extract_body zip_path extract_to w)
       (\<lambda>e w'. (Inr False, say [Str ''Error extracting zip file: '', Err e] w'))"

subsection \<open>\<^verbatim>\<open>install_harmony_mod\<close> and \<^verbatim>\<open>install_rimworld_access_mod\<close>\<close>

text \<open>
  The two functions have the same body but for the repository, the release type, the
  names of the temporary archive and directory, and the wording of the messages.
  \<open>install_mod\<close> is that body; \<open>install_extracted\<close> is its second half, from the
  listing of the temporary directory on.
\<close>

text \<open>The cleanup the source writes twice: the temporary directory, then the archive.\<close>

definition cleanup :: "path \<Rightarrow> path \<Rightarrow> bool \<Rightarrow> world \<Rightarrow> (exn + bool) \<times> world" where
  "cleanup temp_extract temp_zip result w =
     (let w1 = w\<lparr>fs := rmtree_ignore_errors temp_extract (fs w)\<rparr> in
      case unlink_missing_ok temp_zip (fs w1) of
        Inl e \<Rightarrow> (Inl e, w1)
      | Inr t \<Rightarrow> (Inr result, w1\<lparr>fs := t\<rparr>))"

definition extracted_folders :: "listing \<Rightarrow> path \<Rightarrow> node \<Rightarrow> exn + path list" where
  "extracted_folders key temp_extract t =
     (case iterdir key temp_extract t of
        Inl e \<Rightarrow> Inl e
      | Inr entries \<Rightarrow> Inr (filter (is_dir t) entries))"

definition install_extracted ::
  "string \<Rightarrow> path \<Rightarrow> path \<Rightarrow> path \<Rightarrow> world \<Rightarrow> (exn + bool) \<times> world" where
  "install_extracted label mods_dir temp_zip temp_extract w =
     (case extracted_folders (listing_key w) temp_extract (fs w) of
        Inl e \<Rightarrow> (Inl e, w)
      | Inr [] \<Rightarrow>
          cleanup temp_extract temp_zip False
            (say [Str (''Error: No folder found in extracted '' @ label @ '' zip'')] w)
      | Inr (folder # others) \<Rightarrow>
          (let destination = mods_dir @ [name_of folder];
               removed =
                 (if exists_path (fs w) destination then
                    (let w1 = say [Str (''Removing existing '' @ label @ '' installation at ''),
                                   Pth destination] w
                     in case rmtree destination (fs w1) of
                          Inl e \<Rightarrow> (Inl e, w1)
                        | Inr t \<Rightarrow> (Inr (), w1\<lparr>fs := t\<rparr>))
                  else (Inr (), w))
           in case removed of
                (Inl e, w2) \<Rightarrow> (Inl e, w2)
              | (Inr u, w2) \<Rightarrow>
                  (case move folder destination (fs w2) of
                     Inl e \<Rightarrow> (Inl e, w2)
                   | Inr t \<Rightarrow>
                       cleanup temp_extract temp_zip True
                         (say [Str (label @ '' mod installed to: ''), Pth destination]
                            (w2\<lparr>fs := t\<rparr>)))))"

definition install_mod ::
  "string \<Rightarrow> string \<Rightarrow> string \<Rightarrow> string \<Rightarrow> string \<Rightarrow> string \<Rightarrow> path \<Rightarrow> world
     \<Rightarrow> (exn + bool) \<times> world" where
  "install_mod header label repo release_type zip_name temp_name rimworld_path w =
     (let w0 = say [Str header] w;
          mods_dir = rimworld_path @ [''Mods'']
      in case mkdir_exist_ok mods_dir (fs w0) of
           Inl e \<Rightarrow> (Inl e, w0)
         | Inr t \<Rightarrow>
             (case get_latest_github_release repo release_type (w0\<lparr>fs := t\<rparr>) of
                (Inl e, w1) \<Rightarrow> (Inl e, w1)
              | (Inr url, w1) \<Rightarrow>
                  if \<not> py_truthy url then
                    (Inr False, say [Str (''Failed to get '' @ label @ '' download URL'')] w1)
                  else
                    (let temp_zip = cwd w1 @ [zip_name] in
                     case download_file url temp_zip w1 of
                       (Inl e, w2) \<Rightarrow> (Inl e, w2)
                     | (Inr downloaded, w2) \<Rightarrow>
                         if \<not> downloaded then (Inr False, w2)
                         else
                           (let temp_extract = cwd w2 @ [temp_name] in
                            case extract_zip temp_zip temp_extract w2 of
                              (Inl e, w3) \<Rightarrow> (Inl e, w3)
                            | (Inr extracted, w3) \<Rightarrow>
                                if \<not> extracted then
                                  (case unlink_missing_ok temp_zip (fs w3) of
                                     Inl e \<Rightarrow> (Inl e, w3)
                                   | Inr t' \<Rightarrow> (Inr False, w3\<lparr>fs := t'\<rparr>))
                                else install_extracted label mods_dir temp_zip temp_extract w3))))"

definition install_harmony_mod :: "path \<Rightarrow> world \<Rightarrow> (exn + bool) \<times> world" where
  "install_harmony_mod rimworld_path w =
     install_mod (CHR 0x0A # '' Installing Harmony Mod'') ''Harmony''
       ''pardeike/HarmonyRimWorld'' ''stable'' ''HarmonyMod.zip'' ''temp_harmony''
       rimworld_path w"

definition install_rimworld_access_mod :: "path \<Rightarrow> string \<Rightarrow> world \<Rightarrow> (exn + bool) \<times> world" where
  "install_rimworld_access_mod rimworld_path release_type w =
     install_mod (CHR 0x0A # '' Installing RimWorld Access '') ''RimWorld Access''
       ''shane12300/rimworld_access'' release_type ''RimWorldAccess.zip'' ''temp_access''
       rimworld_path w"

subsection \<open>\<^verbatim>\<open>update_mods_config\<close>\<close>

definition required_mods :: "string list" where
  "required_mods = [''brrainz.harmony'', ''ludeon.rimworld'', ''shane12300.rimworldaccess'']"

definition config_dir :: "world \<Rightarrow> path" where
  "config_dir w =
     home w @ [''AppData'', ''LocalLow'', ''Ludeon Studios'', ''RimWorld by Ludeon Studios'',
               ''Config'']"

definition config_file :: "world \<Rightarrow> path" where
  "config_file w = config_dir w @ [''ModsConfig.xml'']"

text \<open>
  \<^verbatim>\<open>p.with_suffix(suf)\<close>: the name loses what follows its last dot (when the dot is
  neither first nor last in the name) and gets \<open>suf\<close>.
\<close>

definition stem :: "string \<Rightarrow> string" where
  "stem file_name =
     (let i = length file_name - 1 - length (takeWhile (\<lambda>c. c \<noteq> CHR ''.'') (rev file_name))
      in if CHR ''.'' \<in> set file_name \<and> 0 < i \<and> i < length file_name - 1
         then take i file_name else file_name)"

definition with_suffix :: "path \<Rightarrow> string \<Rightarrow> path" where
  "with_suffix p suf = butlast p @ [stem (name_of p) @ suf]"

text \<open>\<^verbatim>\<open>e.find(tag)\<close>, \<^verbatim>\<open>e.findall(tag)\<close> and \<^verbatim>\<open>ET.SubElement(e, tag)\<close> with its text set.\<close>

definition find_child :: "string \<Rightarrow> element \<Rightarrow> element option" where
  "find_child tg e = List.find (\<lambda>c. el_tag c = tg) (el_children e)"

definition findall :: "string \<Rightarrow> element \<Rightarrow> element list" where
  "findall tg e = filter (\<lambda>c. el_tag c = tg) (el_children e)"

definition sub_element :: "string \<Rightarrow> string option \<Rightarrow> element" where
  "sub_element tg txt = Element tg [] txt None []"

text \<open>
  The root after \<^verbatim>\<open>activeMods\<close> is found or made, and that element: the first child of
  the root with the tag.
\<close>

definition with_active_mods :: "element \<Rightarrow> element" where
  "with_active_mods root =
     (case find_child ''activeMods'' root of
        Some a \<Rightarrow> root
      | None \<Rightarrow>
          Element (el_tag root) (el_attrib root) (el_text root) (el_tail root)
            (el_children root @ [sub_element ''activeMods'' None]))"

definition active_mods_of :: "element \<Rightarrow> element" where
  "active_mods_of root =
     (case find_child ''activeMods'' root of
        Some a \<Rightarrow> a
      | None \<Rightarrow> sub_element ''activeMods'' None)"

text \<open>\<^verbatim>\<open>[li.text for li in active_mods.findall('li') if li.text]\<close>.\<close>

definition current_mods_of :: "element \<Rightarrow> string list" where
  "current_mods_of active_mods =
     List.map_filter
       (\<lambda>li. case el_text li of
               Some s \<Rightarrow> if s \<noteq> [] then Some s else None
             | None \<Rightarrow> None)
       (findall ''li'' active_mods)"

text \<open>
  The two loops that fill the cleared element: the required identifiers, then every
  current one that is not required.
\<close>

definition rebuilt_mods :: "string list \<Rightarrow> string list \<Rightarrow> string list" where
  "rebuilt_mods required current = required @ filter (\<lambda>mod_id. mod_id \<notin> set required) current"

text \<open>
  \<^verbatim>\<open>active_mods.clear()\<close> keeps the tag only; the element is changed in place, so the
  root holds the new element where the old one was.
\<close>

fun replace_first :: "string \<Rightarrow> element \<Rightarrow> element list \<Rightarrow> element list" where
  "replace_first tg new [] = []"
| "replace_first tg new (c # cs) =
     (if el_tag c = tg then new # cs else c # replace_first tg new cs)"

definition patched_root :: "string list \<Rightarrow> element \<Rightarrow> element" where
  "patched_root required root =
     (let root1 = with_active_mods root;
          active_mods = active_mods_of root;
          rebuilt =
            Element (el_tag active_mods) [] None None
              (map (\<lambda>mod_id. sub_element ''li'' (Some mod_id))
                 (rebuilt_mods required (current_mods_of active_mods)))
      in Element (el_tag root1) (el_attrib root1) (el_text root1) (el_tail root1)
           (replace_first ''activeMods'' rebuilt (el_children root1)))"

definition patch_config :: "world \<Rightarrow> (exn + bool) \<times> world" where
  "patch_config w =
     (case read_file (config_file w) (fs w) of
        Inl e \<Rightarrow> (Inl e, w)
      | Inr bytes \<Rightarrow>
          (case xml_parse w bytes of
             Inl e \<Rightarrow> (Inl e, w)
           | Inr root \<Rightarrow>
               if take 3 (current_mods_of (active_mods_of root)) = required_mods then
                 (Inr True,
                  say [Str ''ModsConfig.xml already has the correct configuration. No changes needed.''] w)
               else
                 (let backup_file = with_suffix (config_file w) ''.xml.backup'' in
                  case copy2 (config_file w) backup_file (fs w) of
                    Inl e \<Rightarrow> (Inl e, w)
                  | Inr t \<Rightarrow>
                      (let w1 = say [Str ''Backup created at: '', Pth backup_file] (w\<lparr>fs := t\<rparr>) in
                       case write_file (config_file w1)
                              (xml_serialize w1 (patched_root required_mods root)) (fs w1) of
                         Inl e \<Rightarrow> (Inl e, w1)
                       | Inr t' \<Rightarrow>
                           (Inr True,
                            say [Str ''ModsConfig.xml updated successfully!''] (w1\<lparr>fs := t'\<rparr>))))))"

definition update_mods_config :: "path \<Rightarrow> world \<Rightarrow> (exn + bool) \<times> world" where
  "update_mods_config rimworld_path w =
     (let w0 = say [Str (CHR 0x0A # '' Updating ModsConfig.xml '')] w in
      if \<not> exists_path (fs w0) (config_file w0) then
        (Inr True,
         say [Str ''Please run the game, and try again.'']
           (say [Str ''The file will be created when you first run RimWorld.'']
              (say [Str ''Warning: ModsConfig.xml not found at '', Pth (config_file w0)] w0)))
      else
        catch_exception (patch_config w0)
          (\<lambda>e w'. (Inr False, say [Str ''Error updating ModsConfig.xml: '', Err e] w')))"

subsection \<open>\<^verbatim>\<open>main\<close>\<close>

text \<open>The loop that asks for the version: it ends on 1, 2 or 3, or when \<^verbatim>\<open>input\<close> raises.\<close>

partial_function (option) choose_release_type :: "world \<Rightarrow> ((exn + string) \<times> world) option" where
  "choose_release_type w =
     (case input_line (CHR 0x0A # ''Enter your choice (1/2/3): '') w of
        (Inl e, w1) \<Rightarrow> Some (Inl e, w1)
      | (Inr s, w1) \<Rightarrow>
          (let version_choice = strip s in
           if version_choice = ''1'' then
             Some (Inr ''stable'', say [Str ''Will download the latest stable release.''] w1)
           else if version_choice = ''2'' then
             Some (Inr ''beta'', say [Str ''Will download the latest beta release.''] w1)
           else if version_choice = ''3'' then
             Some (Inr ''dev'', say [Str ''Will download the development build.''] w1)
           else choose_release_type (say [Str ''Please enter 1, 2, or 3.''] w1)))"

declare choose_release_type.simps [code]

text \<open>
  The two handlers of \<^verbatim>\<open>main\<close>; both return 1. The traceback goes to the error stream,
  which the world does not hold.
\<close>

definition main_handler :: "exn \<Rightarrow> world \<Rightarrow> int \<times> world" where
  "main_handler e w =
     (case e of
        KeyboardInterrupt \<Rightarrow>
          (1, say [Str ([CHR 0x0A, CHR 0x0A] @ ''Installation cancelled by user.'')] w)
      | Exception c \<Rightarrow>
          (1, say [Str ([CHR 0x0A, CHR 0x0A] @ ''Unexpected error: ''), Err e] w))"

definition version_menu :: "world \<Rightarrow> world" where
  "version_menu w =
     say [Str ''3. Dev - Development build (bleeding edge, may be unstable)'']
       (say [Str ''2. Beta - Latest beta/pre-release version'']
          (say [Str ''1. Stable - Latest stable release (recommended)'']
             (say [Str (CHR 0x0A # ''Which version of RimWorld Access do you want to install?'')] w)))"

definition main :: "world \<Rightarrow> (int \<times> world) option" where
  "main w =
     (case find_rimworld_directory (say [Str ''RimWorld Access Mod Installer''] w) of
        None \<Rightarrow> None
      | Some (Inl e, w1) \<Rightarrow> Some (main_handler e w1)
      | Some (Inr rimworld_path, w1) \<Rightarrow>
          (case install_harmony_mod rimworld_path w1 of
             (Inl e, w2) \<Rightarrow> Some (main_handler e w2)
           | (Inr harmony_ok, w2) \<Rightarrow>
               if \<not> harmony_ok then
                 Some (1, say [Str (CHR 0x0A # ''Failed to install Harmony mod. Installation aborted.'')] w2)
               else
                 (case choose_release_type (version_menu w2) of
                    None \<Rightarrow> None
                  | Some (Inl e, w3) \<Rightarrow> Some (main_handler e w3)
                  | Some (Inr release_type, w3) \<Rightarrow>
                      (case install_rimworld_access_mod rimworld_path release_type w3 of
                         (Inl e, w4) \<Rightarrow> Some (main_handler e w4)
                       | (Inr access_ok, w4) \<Rightarrow>
                           if \<not> access_ok then
                             Some (1, say [Str (CHR 0x0A #
                               ''Failed to install RimWorld Access mod. Installation aborted.'')] w4)
                           else
                             (case update_mods_config rimworld_path w4 of
                                (Inl e, w5) \<Rightarrow> Some (main_handler e w5)
                              | (Inr config_ok, w5) \<Rightarrow>
                                  Some (0, say [Str ''Installation complete!''] w5))))))"

section \<open>Example worlds\<close>

text \<open>
  Concrete worlds on which the theorems below are run. \<open>quiet\<close> is a world where
  nothing is installed, nothing is typed and every library call fails.
  Its directories are listed in the order their entries were made.
\<close>

definition quiet :: world where
  "quiet =
     \<lparr>fs = Dir [], cwd = [], home = [], stdin = (\<lambda>n. EOF), stdout = [],
      http_json = (\<lambda>url. Inl (Exception ''ConnectionError'')),
      http_stream = (\<lambda>url. Inl (Exception ''ConnectionError'')),
      unzip = (\<lambda>bytes. Inl (Exception ''BadZipFile'')),
      listing_key = (\<lambda>t p c. 0),
      xml_parse = (\<lambda>bytes. Inl (Exception ''ParseError'')),
      xml_serialize = (\<lambda>root. []),
      path_of = (\<lambda>user_path. [user_path])\<rparr>"

text \<open>A repository that has published nothing, and one with a single stable release.\<close>

definition empty_listing :: world where
  "empty_listing = quiet\<lparr>http_json := \<lambda>url. Inr (JArr [])\<rparr>"

definition one_release :: world where
  "one_release = quiet\<lparr>http_json := \<lambda>url. Inr (JArr [JObj [(''tag_name'', JStr ''v1.0'')]])\<rparr>"

text \<open>
  A release with one archive among its assets, and a repository whose releases are
  tagged \<^verbatim>\<open>v2.0-beta\<close> and \<^verbatim>\<open>v1.0\<close>, in that order.
\<close>

definition release :: "string \<Rightarrow> json" where
  "release tg =
     JObj [(''tag_name'', JStr tg), (''name'', JStr (''Release '' @ tg)),
           (''assets'',
            JArr [JObj [(''name'', JStr ''notes.txt''),
                        (''browser_download_url'', JStr (''https://example.org/'' @ tg @ ''/notes.txt''))],
                  JObj [(''name'', JStr ''mod.zip''),
                        (''browser_download_url'', JStr (''https://example.org/'' @ tg @ ''/mod.zip''))]])]"

definition two_releases :: world where
  "two_releases = quiet\<lparr>http_json := \<lambda>url. Inr (JArr [release ''v2.0-beta'', release ''v1.0''])\<rparr>"

text \<open>
  A repository whose beta and dev releases are tagged in capitals and come after a
  stable release, each before a second release of its channel; and a repository whose
  tags come close to the two markers without matching them.
\<close>

definition mixed_case_releases :: world where
  "mixed_case_releases =
     quiet\<lparr>http_json := \<lambda>url.
       Inr (JArr [release ''v1.0'', release ''V3-BETA.1'', release ''v2-beta'',
                  release ''DeV'', release ''dev''])\<rparr>"

definition near_misses :: world where
  "near_misses =
     quiet\<lparr>http_json := \<lambda>url.
       Inr (JArr [release ''beta1'', release ''v1-bet-a'', release ''nightly-dev'',
                  release ''devel''])\<rparr>"

text \<open>
  A repository whose latest release is \<^verbatim>\<open>v1.0\<close>, and one whose latest release has no
  archive among its assets.
\<close>

definition stable_release :: world where
  "stable_release = quiet\<lparr>http_json := \<lambda>url. Inr (release ''v1.0'')\<rparr>"

definition no_archive :: world where
  "no_archive =
     quiet\<lparr>http_json := \<lambda>url.
       Inr (JObj [(''tag_name'', JStr ''v1.0''),
                  (''assets'',
                   JArr [JObj [(''name'', JStr ''notes.txt''),
                               (''browser_download_url'', JStr ''https://example.org/notes.txt'')]])])\<rparr>"

text \<open>
  A machine with the game at its default place and the mods given, a configuration
  file, and \<^verbatim>\<open>C:\work\<close>, with the entries given, as the working directory; at first an
  older Harmony is the only mod and the working directory is empty.
\<close>

definition machine_tree :: "(string \<times> node) list \<Rightarrow> (string \<times> node) list \<Rightarrow> node" where
  "machine_tree mods work =
     Dir [(''C:'',
           Dir [(''Program Files (x86)'',
                 Dir [(''Steam'',
                       Dir [(''steamapps'',
                             Dir [(''common'',
                                   Dir [(''RimWorld'',
                                         Dir [(''RimWorldWin64.exe'', File ''MZ''),
                                              (''Mods'', Dir mods)])])])])]),
                (''Users'',
                 Dir [(''u'',
                       Dir [(''AppData'',
                             Dir [(''LocalLow'',
                                   Dir [(''Ludeon Studios'',
                                         Dir [(''RimWorld by Ludeon Studios'',
                                               Dir [(''Config'',
                                                     Dir [(''ModsConfig.xml'', File ''<old/>'')])])])])])])]),
                (''work'', Dir work)])]"

definition game_tree :: node where
  "game_tree = machine_tree [(''Harmony'', Dir [(''old.dll'', File ''old'')])] []"

definition machine :: world where
  "machine = quiet\<lparr>fs := game_tree, cwd := [''C:'', ''work''], home := [''C:'', ''Users'', ''u'']\<rparr>"

text \<open>A download of four bytes that completes, and one cut off after the first two.\<close>

definition good_download :: world where
  "good_download =
     machine\<lparr>http_stream := \<lambda>url.
       Inr \<lparr>total_size = Inr 4, chunks = [''PK'', [], ''ok''], stream_end = None\<rparr>\<rparr>"

definition broken_download :: world where
  "broken_download =
     machine\<lparr>http_stream := \<lambda>url.
       Inr \<lparr>total_size = Inr 4, chunks = [''PK''],
            stream_end = Some (Exception ''ConnectionError'')\<rparr>\<rparr>"

text \<open>
  An installation of Harmony whose download is cut off: the API answers, the archive
  starts to arrive, the connection breaks.
\<close>

definition cut_off_install :: world where
  "cut_off_install = broken_download\<lparr>http_json := \<lambda>url. Inr (release ''v2.3'')\<rparr>"

text \<open>
  A configuration that enables \<^verbatim>\<open>x.mod\<close> and Harmony, in that order, on a machine whose
  XML library reads the file \<^verbatim>\<open><old/>\<close> as that configuration, writes every document
  as \<^verbatim>\<open><new/>\<close> and reads \<^verbatim>\<open><new/>\<close> as the patched configuration.
\<close>

definition old_config :: element where
  "old_config =
     Element ''ModsConfigData'' [] None None
       [Element ''version'' [] (Some ''1.5.4104 rev435'') None [],
        Element ''activeMods'' [] None None
          [Element ''li'' [] (Some ''x.mod'') None [],
           Element ''li'' [] (Some ''brrainz.harmony'') None []]]"

definition configured :: world where
  "configured =
     machine\<lparr>xml_parse := \<lambda>bytes.
                if bytes = ''<old/>'' then Inr old_config
                else if bytes = ''<new/>'' then Inr (patched_root required_mods old_config)
                else Inl (Exception ''ParseError''),
             xml_serialize := \<lambda>root. ''<new/>''\<rparr>"

text \<open>
  A machine where the game is not at its default place. The user types a name that
  does not exist, then a directory that is not the game's, in double quotes, then the
  game directory, in single quotes.
\<close>

definition lost_game :: world where
  "lost_game =
     quiet\<lparr>fs := Dir [(''Elsewhere'', Dir []),
                     (''RimWorld'', Dir [(''RimWorldWin.exe'', File ''MZ'')])],
           stdin := \<lambda>n. if n = 0 then Line ''nowhere''
                        else if n = 1 then Line (CHR 0x22 # ''Elsewhere'' @ [CHR 0x22])
                        else if n = 2 then Line (CHR 0x27 # ''RimWorld'' @ [CHR 0x27])
                        else EOF\<rparr>"

text \<open>
  A machine on which both installations go through: the API answers with a release
  for each repository, both archives arrive and unpack to one folder each, and the user
  asks for the stable version, typing a no-break space (U+00A0) before the \<^verbatim>\<open>1\<close> and a
  space after it. Its XML library cannot read the configuration file.
\<close>

definition full_install :: world where
  "full_install =
     machine\<lparr>
       stdin := \<lambda>n. if n = 0 then Line (CHR 0xC2 # CHR 0xA0 # ''1 '') else EOF,
       http_json := \<lambda>url.
         if url = api_url ''pardeike/HarmonyRimWorld'' ''/releases/latest''
         then Inr (release ''v2.3'') else Inr (release ''v1.0''),
       http_stream := \<lambda>url.
         if url = ''https://example.org/v2.3/mod.zip''
         then Inr \<lparr>total_size = Inr 3, chunks = [''PKh''], stream_end = None\<rparr>
         else Inr \<lparr>total_size = Inr 0, chunks = [''PKa''], stream_end = None\<rparr>,
       unzip := \<lambda>bytes.
         if bytes = ''PKh''
         then Inr [MDir [''Harmony''], MFile [''Harmony'', ''About'', ''About.xml''] ''<about/>'']
         else if bytes = ''PKa''
         then Inr [MFile [''RimWorldAccess'', ''Access.dll''] ''MZ'', MFile [''README.txt''] ''read me'']
         else Inl (Exception ''BadZipFile'')\<rparr>"

text \<open>The folders the two archives of that machine unpack to.\<close>

definition harmony_folder :: node where
  "harmony_folder = Dir [(''About'', Dir [(''About.xml'', File ''<about/>'')])]"

definition access_folder :: node where
  "access_folder = Dir [(''Access.dll'', File ''MZ'')]"



text \<open>
  A machine on which the archive of Harmony arrives whole but cannot be unpacked to the
  end: it holds a file \<^verbatim>\<open>Harmony/About\<close> and then a file below that path.
\<close>

definition damaged_archive :: world where
  "damaged_archive =
     full_install\<lparr>unzip := \<lambda>bytes.
       Inr [MFile [''Harmony'', ''About''] ''x'',
            MFile [''Harmony'', ''About'', ''About.xml''] ''<about/>'']\<rparr>"

section \<open>Vocabulary of the claims\<close>

text \<open>
  A release as the API documents it is a dictionary whose \<^verbatim>\<open>tag_name\<close>, when present, is
  a string; \<open>tag_of\<close> is that string (empty when the key is absent, as the default of
  \<^verbatim>\<open>r.get('tag_name', '')\<close> is).
\<close>

definition has_tag :: "json \<Rightarrow> bool" where
  "has_tag r =
     (case r of
        JObj kvs \<Rightarrow>
          (case map_of kvs ''tag_name'' of
             None \<Rightarrow> True
           | Some (JStr t) \<Rightarrow> True
           | Some other \<Rightarrow> False)
      | other \<Rightarrow> False)"

definition tag_of :: "json \<Rightarrow> string" where
  "tag_of r =
     (case r of
        JObj kvs \<Rightarrow> (case map_of kvs ''tag_name'' of Some (JStr t) \<Rightarrow> t | other \<Rightarrow> [])
      | other \<Rightarrow> [])"

text \<open>
  The two channels of the claim, written on the characters of a tag and without the
  string operations of the program. A tag is a beta tag when it holds, at some place, the
  five characters of \<^verbatim>\<open>-beta\<close>, each letter small or capital; it is a dev tag when it is the
  three letters of \<^verbatim>\<open>dev\<close>, each small or capital.
\<close>

fun beta_marker :: "string \<Rightarrow> bool" where
  "beta_marker (c0 # c1 # c2 # c3 # c4 # rest) =
     (c0 = CHR ''-'' \<and> (c1 = CHR ''b'' \<or> c1 = CHR ''B'') \<and> (c2 = CHR ''e'' \<or> c2 = CHR ''E'')
      \<and> (c3 = CHR ''t'' \<or> c3 = CHR ''T'') \<and> (c4 = CHR ''a'' \<or> c4 = CHR ''A''))"
| "beta_marker s = False"

definition beta_tag :: "string \<Rightarrow> bool" where
  "beta_tag t = list_ex beta_marker (suffixes t)"

definition dev_tag :: "string \<Rightarrow> bool" where
  "dev_tag t =
     (t \<in> set [''dev'', ''Dev'', ''dEv'', ''deV'', ''DEv'', ''DeV'', ''dEV'', ''DEV''])"

text \<open>
  An asset as the API documents it is a dictionary with a string \<^verbatim>\<open>name\<close> and a
  \<^verbatim>\<open>browser_download_url\<close>; it is an archive when its name ends in \<^verbatim>\<open>.zip\<close>.
\<close>

definition asset_name :: "json \<Rightarrow> string option" where
  "asset_name a =
     (case a of
        JObj kvs \<Rightarrow> (case map_of kvs ''name'' of Some (JStr n) \<Rightarrow> Some n | other \<Rightarrow> None)
      | other \<Rightarrow> None)"

definition is_zip_asset :: "json \<Rightarrow> bool" where
  "is_zip_asset a = (case asset_name a of Some n \<Rightarrow> endswith n ''.zip'' | None \<Rightarrow> False)"

definition download_url :: "json \<Rightarrow> json option" where
  "download_url a = (case a of JObj kvs \<Rightarrow> map_of kvs ''browser_download_url'' | other \<Rightarrow> None)"

text \<open>The line that announces the release found, with the defaults of the two \<^verbatim>\<open>get\<close> calls.\<close>

definition found_release :: "(string \<times> json) list \<Rightarrow> line" where
  "found_release kvs =
     [Str ''Found release: '',
      Val (case map_of kvs ''tag_name'' of Some tag \<Rightarrow> tag | None \<Rightarrow> JStr ''unknown''),
      Str '' - '',
      Val (case map_of kvs ''name'' of Some title \<Rightarrow> title | None \<Rightarrow> JStr [])]"

text \<open>
  What can go wrong in a download, in the order the steps are taken: the request, the
  reading of the size, the opening of the destination, the stream. \<open>None\<close> is the
  download that completes.
\<close>

definition download_failure :: "json \<Rightarrow> path \<Rightarrow> world \<Rightarrow> exn option" where
  "download_failure url destination w =
     (case requests_get_stream w url of
        Inl e \<Rightarrow> Some e
      | Inr response \<Rightarrow>
          (case total_size response of
             Inl e \<Rightarrow> Some e
           | Inr n \<Rightarrow>
               (case open_wb destination (fs w) of
                  Inl e \<Rightarrow> Some e
                | Inr t \<Rightarrow> stream_end response)))"

text \<open>The world after \<open>n\<close> runs of \<^verbatim>\<open>update_mods_config\<close>, one after the other.\<close>

primrec runs :: "path \<Rightarrow> nat \<Rightarrow> world \<Rightarrow> world" where
  "runs rimworld_path 0 w = w"
| "runs rimworld_path (Suc n) w = snd (update_mods_config rimworld_path (runs rimworld_path n w))"

text \<open>
  The path the prompt loop makes of a line typed, what the loop accepts as the game
  directory, and the world with which the loop goes round again after a line it
  rejects: the prompt printed, the line consumed, the reason printed.
\<close>

definition typed_path :: "world \<Rightarrow> string \<Rightarrow> path" where
  "typed_path w s = path_of w (strip_chars [CHR 0x27] (strip_chars [CHR 0x22] s))"

definition game_directory :: "node \<Rightarrow> path \<Rightarrow> bool" where
  "game_directory t p =
     (exists_path t p \<and> is_dir t p
      \<and> (exists_path t (p @ [''RimWorldWin64.exe'']) \<or> exists_path t (p @ [''RimWorldWin.exe''])))"

definition rejected :: "world \<Rightarrow> string \<Rightarrow> world" where
  "rejected w s =
     say [Str (if exists_path (fs w) (typed_path w s) \<and> is_dir (fs w) (typed_path w s)
               then ''This doesn't appear to be a valid RimWorld installation directory.''
               else ''Directory not found. Please try again.'')]
       ((say [Str ''Please enter the path to your RimWorld installation: ''] w)
          \<lparr>stdin := \<lambda>n. stdin w (Suc n)\<rparr>)"

text \<open>
  \<open>unchanged w v\<close>: the world \<open>v\<close> differs from \<open>w\<close> in its filesystem and its console
  only. The directories of the process, the pending input and the libraries are those
  of \<open>w\<close>.
\<close>

definition unchanged :: "world \<Rightarrow> world \<Rightarrow> bool" where
  "unchanged w v =
     (cwd v = cwd w \<and> home v = home w \<and> stdin v = stdin w \<and> http_json v = http_json w
      \<and> http_stream v = http_stream w \<and> unzip v = unzip w
      \<and> listing_key v = listing_key w \<and> xml_parse v = xml_parse w
      \<and> xml_serialize v = xml_serialize w \<and> path_of v = path_of w)"

section \<open>Basic facts\<close>

lemma catch_exception_simps [simp]:
  "catch_exception (Inl (Exception c), w) h = h (Exception c) w"
  "catch_exception (Inl KeyboardInterrupt, w) h = (Inl KeyboardInterrupt, w)"
  "catch_exception (Inr v, w) h = (Inr v, w)"
  by (simp_all add: catch_exception_def)

lemma say_fields [simp]:
  "fs (say l w) = fs w" "cwd (say l w) = cwd w" "home (say l w) = home w"
  "stdin (say l w) = stdin w" "stdout (say l w) = stdout w @ [l]"
  "http_json (say l w) = http_json w" "http_stream (say l w) = http_stream w"
  "unzip (say l w) = unzip w" "listing_key (say l w) = listing_key w"
  "xml_parse (say l w) = xml_parse w"
  "xml_serialize (say l w) = xml_serialize w" "path_of (say l w) = path_of w"
  by (simp_all add: say_def)

section \<open>Selecting a release and its archive\<close>

text \<open>The two string tests are the substring and suffix relations of the library.\<close>

lemma contains_iff_sublist: "contains sub s = sublist sub s"
  by (induction s) (auto simp: sublist_Cons_right)

lemma endswith_iff_suffix: "endswith s suf = suffix suf s"
  by (simp add: endswith_def suffix_to_prefix)

lemma lower_simps [simp]:
  "lower [] = []" "lower (c # cs) = lower_char c # lower cs"
  by (simp_all add: lower_def)

text \<open>A substring of the image of a list is the image of a part of the list.\<close>

lemma sublist_map_iff:
  "sublist xs (map f t) \<longleftrightarrow> (\<exists>pre m post. t = pre @ m @ post \<and> map f m = xs)"
proof
  assume "sublist xs (map f t)"
  then have "\<exists>ps ss. map f t = ps @ xs @ ss"
    by (simp only: sublist_def)
  then obtain ps ss where "map f t = ps @ xs @ ss"
    by blast
  then have "\<exists>pre r. t = pre @ r \<and> ps = map f pre \<and> xs @ ss = map f r"
    by (simp only: map_eq_append_conv)
  then obtain pre r where r: "t = pre @ r" "xs @ ss = map f r"
    by blast
  from r(2) have "\<exists>m post. r = m @ post \<and> xs = map f m \<and> ss = map f post"
    by (simp only: append_eq_map_conv)
  then obtain m post where "r = m @ post" "map f m = xs"
    by blast
  with r(1) show "\<exists>pre m post. t = pre @ m @ post \<and> map f m = xs"
    by blast
next
  assume "\<exists>pre m post. t = pre @ m @ post \<and> map f m = xs"
  then obtain pre m post where "t = pre @ m @ post" "map f m = xs"
    by blast
  then have "map f t = map f pre @ xs @ map f post"
    by simp
  then show "sublist xs (map f t)"
    by (simp only: sublist_appendI)
qed

text \<open>Which characters lower-case to the letters of the two markers.\<close>

lemma lower_char_letter:
  "lower_char c = CHR ''-'' \<longleftrightarrow> c = CHR ''-''"
  "lower_char c = CHR ''b'' \<longleftrightarrow> c = CHR ''b'' \<or> c = CHR ''B''"
  "lower_char c = CHR ''e'' \<longleftrightarrow> c = CHR ''e'' \<or> c = CHR ''E''"
  "lower_char c = CHR ''t'' \<longleftrightarrow> c = CHR ''t'' \<or> c = CHR ''T''"
  "lower_char c = CHR ''a'' \<longleftrightarrow> c = CHR ''a'' \<or> c = CHR ''A''"
  "lower_char c = CHR ''d'' \<longleftrightarrow> c = CHR ''d'' \<or> c = CHR ''D''"
  "lower_char c = CHR ''v'' \<longleftrightarrow> c = CHR ''v'' \<or> c = CHR ''V''"
  by (auto simp: lower_char_def split: if_splits)

lemma lower_is_dev:
  "lower t = ''dev'' \<longleftrightarrow>
     (\<exists>c1 c2 c3. t = [c1, c2, c3] \<and> (c1 = CHR ''d'' \<or> c1 = CHR ''D'')
        \<and> (c2 = CHR ''e'' \<or> c2 = CHR ''E'') \<and> (c3 = CHR ''v'' \<or> c3 = CHR ''V''))"
  by (auto simp: lower_def lower_char_letter Cons_eq_map_conv)

text \<open>
  The two tests of the program decide the two channels: lower-casing and comparing is
  matching each letter in either case.
\<close>

lemma dev_tag_lower: "dev_tag t \<longleftrightarrow> lower t = ''dev''"
  unfolding lower_is_dev dev_tag_def by auto

lemma beta_marker_Cons:
  "beta_marker s \<longleftrightarrow>
     (\<exists>c0 c1 c2 c3 c4 post. s = c0 # c1 # c2 # c3 # c4 # post
        \<and> (c0 = CHR ''-'' \<and> (c1 = CHR ''b'' \<or> c1 = CHR ''B'') \<and> (c2 = CHR ''e'' \<or> c2 = CHR ''E'')
        \<and> (c3 = CHR ''t'' \<or> c3 = CHR ''T'') \<and> (c4 = CHR ''a'' \<or> c4 = CHR ''A'')))"
  by (cases s rule: beta_marker.cases) simp_all

lemma lower_is_beta_marker:
  "map lower_char m = ''-beta'' \<longleftrightarrow>
     (\<exists>c0 c1 c2 c3 c4. m = [c0, c1, c2, c3, c4]
        \<and> (c0 = CHR ''-'' \<and> (c1 = CHR ''b'' \<or> c1 = CHR ''B'') \<and> (c2 = CHR ''e'' \<or> c2 = CHR ''E'')
        \<and> (c3 = CHR ''t'' \<or> c3 = CHR ''T'') \<and> (c4 = CHR ''a'' \<or> c4 = CHR ''A'')))"
  by (auto simp: lower_char_letter map_eq_Cons_conv)

lemma starts_with_five:
  "(\<exists>m post. s = m @ post \<and> (\<exists>a b c d e. m = [a, b, c, d, e] \<and> P a b c d e))
     \<longleftrightarrow> (\<exists>a b c d e post. s = a # b # c # d # e # post \<and> P a b c d e)"
proof
  assume "\<exists>m post. s = m @ post \<and> (\<exists>a b c d e. m = [a, b, c, d, e] \<and> P a b c d e)"
  then show "\<exists>a b c d e post. s = a # b # c # d # e # post \<and> P a b c d e"
    by auto
next
  assume "\<exists>a b c d e post. s = a # b # c # d # e # post \<and> P a b c d e"
  then obtain a b c d e post where "s = [a, b, c, d, e] @ post" "P a b c d e"
    by auto
  then show "\<exists>m post. s = m @ post \<and> (\<exists>a b c d e. m = [a, b, c, d, e] \<and> P a b c d e)"
    by blast
qed

lemma beta_marker_lower:
  "beta_marker s \<longleftrightarrow> (\<exists>m post. s = m @ post \<and> map lower_char m = ''-beta'')"
  by (simp only: beta_marker_Cons lower_is_beta_marker starts_with_five)

lemma somewhere_iff:
  assumes "\<And>s. Q s \<longleftrightarrow> (\<exists>m post. s = m @ post \<and> map f m = xs)"
  shows "list_ex Q (suffixes t) \<longleftrightarrow> sublist xs (map f t)"
proof -
  have "list_ex Q (suffixes t) \<longleftrightarrow> (\<exists>s. suffix s t \<and> Q s)"
    by (simp add: list_ex_iff Bex_def)
  also have "\<dots> \<longleftrightarrow> (\<exists>pre s. t = pre @ s \<and> Q s)"
    unfolding suffix_def by blast
  also have "\<dots> \<longleftrightarrow> (\<exists>pre m post. t = pre @ m @ post \<and> map f m = xs)"
    unfolding assms by blast
  finally show ?thesis
    by (simp only: sublist_map_iff)
qed

lemma beta_tag_lower: "beta_tag t \<longleftrightarrow> contains ''-beta'' (lower t)"
  unfolding beta_tag_def contains_iff_sublist lower_def
  by (rule somewhere_iff) (rule beta_marker_lower)

text \<open>A comprehension whose test never raises is a filter, and its head is the first match.\<close>

lemma py_filter_total:
  "\<forall>r\<in>set rs. test r = Inr (p r) \<Longrightarrow> py_filter test rs = Inr (filter p rs)"
  by (induction rs) auto

lemma find_filter:
  "List.find p rs = (case filter p rs of [] \<Rightarrow> None | r # others \<Rightarrow> Some r)"
  by (induction rs) auto

lemma is_beta_tag: "has_tag r \<Longrightarrow> is_beta r = Inr (contains ''-beta'' (lower (tag_of r)))"
  by (auto simp: has_tag_def tag_of_def is_beta_def split: json.splits option.splits)

lemma is_dev_tag: "has_tag r \<Longrightarrow> is_dev r = Inr (lower (tag_of r) = ''dev'')"
  by (auto simp: has_tag_def tag_of_def is_dev_def split: json.splits option.splits)

lemma first_matching_find:
  assumes "\<forall>r\<in>set rs. test r = Inr (p r)"
  shows "first_matching test none_found repo (JArr rs) w =
     (case List.find p rs of
        Some r \<Rightarrow> zip_url_of repo r w
      | None \<Rightarrow> (Inr JNull, say none_found w))"
  using py_filter_total [OF assms]
  by (simp add: first_matching_def find_filter split: list.splits)

lemma beta_selection:
  assumes "http_json w (api_url repo ''/releases'') = Inr (JArr rs)"
    and "\<forall>r\<in>set rs. has_tag r"
  shows "get_latest_github_release repo ''beta'' w =
     (case List.find (\<lambda>r. contains ''-beta'' (lower (tag_of r))) rs of
        Some r \<Rightarrow> catch_exception (zip_url_of repo r w) report_fetch_error
      | None \<Rightarrow>
          (Inr JNull,
           say (if rs = [] then [Str ''No releases found for '', Str repo]
                else [Str ''No beta releases found for '', Str repo]) w))"
proof -
  have "\<forall>r\<in>set rs. is_beta r = Inr (contains ''-beta'' (lower (tag_of r)))"
    using assms(2) by (simp add: is_beta_tag)
  from first_matching_find [OF this] assms(1) show ?thesis
    by (simp add: get_latest_github_release_def release_body_def split: option.splits)
qed

lemma dev_selection:
  assumes "http_json w (api_url repo ''/releases'') = Inr (JArr rs)"
    and "\<forall>r\<in>set rs. has_tag r"
  shows "get_latest_github_release repo ''dev'' w =
     (case List.find (\<lambda>r. lower (tag_of r) = ''dev'') rs of
        Some r \<Rightarrow> catch_exception (zip_url_of repo r w) report_fetch_error
      | None \<Rightarrow>
          (Inr JNull,
           say (if rs = [] then [Str ''No releases found for '', Str repo]
                else [Str ''No 'dev' tag found for '', Str repo]) w))"
proof -
  have "\<forall>r\<in>set rs. is_dev r = Inr (lower (tag_of r) = ''dev'')"
    using assms(2) by (simp add: is_dev_tag)
  from first_matching_find [OF this] assms(1) show ?thesis
    by (simp add: get_latest_github_release_def release_body_def split: option.splits)
qed

text \<open>The loop over the assets stops at the first archive.\<close>

lemma find_zip_asset_find:
  assumes "\<forall>a\<in>set assets. asset_name a \<noteq> None"
  shows "find_zip_asset repo (JObj kvs) assets w =
     (case List.find is_zip_asset assets of
        None \<Rightarrow> (Inr JNull, say [Str ''No zip file found in latest release for '', Str repo] w)
      | Some a \<Rightarrow>
          (case download_url a of
             Some url \<Rightarrow> (Inr url, say (found_release kvs) w)
           | None \<Rightarrow> (Inl (Exception ''KeyError''), say (found_release kvs) w)))"
  using assms
proof (induction assets)
  case Nil
  then show ?case by simp
next
  case (Cons a assets)
  then obtain fields n where a: "a = JObj fields" "map_of fields ''name'' = Some (JStr n)"
    by (auto simp: asset_name_def split: json.splits option.splits)
  show ?case
  proof (cases "endswith n ''.zip''")
    case True
    then show ?thesis
      using a by (simp add: is_zip_asset_def asset_name_def download_url_def found_release_def
          split: option.splits)
  next
    case False
    then show ?thesis
      using a Cons by (simp add: is_zip_asset_def asset_name_def)
  qed
qed

lemma zip_url_of_find:
  assumes "map_of kvs ''assets'' = Some (JArr assets)"
    and "\<forall>a\<in>set assets. asset_name a \<noteq> None"
  shows "catch_exception (zip_url_of repo (JObj kvs) w) report_fetch_error =
     (case List.find is_zip_asset assets of
        None \<Rightarrow> (Inr JNull, say [Str ''No zip file found in latest release for '', Str repo] w)
      | Some a \<Rightarrow>
          (case download_url a of
             Some url \<Rightarrow> (Inr url, say (found_release kvs) w)
           | None \<Rightarrow> report_fetch_error (Exception ''KeyError'') (say (found_release kvs) w)))"
  using assms(1) find_zip_asset_find [OF assms(2)]
  by (simp add: zip_url_of_def split: option.splits)

lemma release_never_raises:
  "fst (get_latest_github_release repo release_type w) \<noteq> Inl (Exception c)"
  by (cases "release_body repo release_type w")
     (auto simp: get_latest_github_release_def catch_exception_def report_fetch_error_def
           split: sum.splits exn.splits)

lemma stable_selection:
  "http_json w (api_url repo ''/releases/latest'') = Inr rel \<Longrightarrow>
   get_latest_github_release repo ''stable'' w =
     catch_exception (zip_url_of repo rel w) report_fetch_error"
  by (simp add: get_latest_github_release_def release_body_def)

lemma http_failure_reported:
  "http_json w (api_url repo (if release_type = ''stable'' then ''/releases/latest'' else ''/releases''))
     = Inl (Exception c) \<Longrightarrow>
   get_latest_github_release repo release_type w =
     (Inr JNull, say [Str ''Error fetching release info from GitHub: '', Err (Exception c)] w)"
  by (simp add: get_latest_github_release_def release_body_def report_fetch_error_def
      split: if_splits)

section \<open>Downloading\<close>

lemma requests_get_stream_say [simp]:
  "requests_get_stream (say l w) url = requests_get_stream w url"
  by (simp add: requests_get_stream_def split: json.splits)

text \<open>The body of the \<^verbatim>\<open>try\<close> block raises exactly the first failure of the download.\<close>

lemma download_body_result:
  "fst (download_body url destination w) =
     (case download_failure url destination w of None \<Rightarrow> Inr True | Some e \<Rightarrow> Inl e)"
  by (simp add: download_body_def download_failure_def Let_def split: sum.splits option.splits)

lemma download_body_complete:
  "download_failure url destination w = None \<Longrightarrow>
   last (stdout (snd (download_body url destination w)))
     = [Str (CHR 0x0A # ''Download complete!'')]"
  by (auto simp: download_body_def download_failure_def Let_def split: sum.splits option.splits)

lemma download_file_never_raises:
  "fst (download_file url destination w) \<noteq> Inl (Exception c)"
  by (cases "download_body url destination w")
     (auto simp: download_file_def catch_exception_def split: sum.splits exn.splits)

lemma download_file_completes:
  assumes "download_failure url destination w = None"
  shows "fst (download_file url destination w) = Inr True"
    and "last (stdout (snd (download_file url destination w)))
            = [Str (CHR 0x0A # ''Download complete!'')]"
  using download_body_result [of url destination w] download_body_complete [OF assms] assms
  by (cases "download_body url destination w"; simp add: download_file_def)+

lemma download_file_fails:
  assumes "download_failure url destination w = Some (Exception c)"
  shows "fst (download_file url destination w) = Inr False"
    and "last (stdout (snd (download_file url destination w)))
            = [Str (CHR 0x0A # ''Error downloading file: ''), Err (Exception c)]"
  using download_body_result [of url destination w] assms
  by (cases "download_body url destination w"; simp add: download_file_def)+

lemma download_file_interrupted:
  assumes "download_failure url destination w = Some KeyboardInterrupt"
  shows "fst (download_file url destination w) = Inl KeyboardInterrupt"
  using download_body_result [of url destination w] assms
  by (cases "download_body url destination w"; simp add: download_file_def)

section \<open>The filesystem tree\<close>

lemma is_dir_Nil [simp]: "is_dir t [] = (\<exists>es. t = Dir es)"
  by (cases t) (simp_all add: is_dir_def)

lemma is_dir_Cons_Dir [simp]:
  "is_dir (Dir es) (c # cs) = (case map_of es c of None \<Rightarrow> False | Some n \<Rightarrow> is_dir n cs)"
  by (simp add: is_dir_def split: option.splits)

lemma is_dir_Cons_File [simp]: "is_dir (File b) (c # cs) = False"
  by (simp add: is_dir_def)

text \<open>What is put at a path is found there, when the path has a parent directory.\<close>

lemma lookup_set_at_same:
  "p \<noteq> [] \<Longrightarrow> is_dir t (butlast p) \<Longrightarrow> lookup (set_at p v t) p = v"
proof (induction p v t rule: set_at.induct)
  case (2 c v es)
  then show ?case by (simp add: update_conv' delete_conv' split: option.splits)
next
  case (3 c c' cs v es)
  then show ?case by (auto simp: update_conv' split: option.splits)
qed (auto split: if_splits)

text \<open>A change at \<open>p\<close> is not seen at a path that is neither above nor below \<open>p\<close>.\<close>

lemma lookup_set_at_other:
  "\<not> prefix p q \<Longrightarrow> \<not> prefix q p \<Longrightarrow> lookup (set_at p v t) q = lookup t q"
proof (induction p v t arbitrary: q rule: set_at.induct)
  case (1 v n)
  then show ?case by simp
next
  case (2 c v es)
  then show ?case by (cases q) (auto simp: update_conv' delete_conv' split: option.splits)
next
  case (3 c c' cs v es)
  then show ?case by (cases q) (auto simp: update_conv' split: option.splits)
next
  case (4 c cs v b)
  then show ?case by simp
qed

text \<open>Nor does it change which paths above \<open>p\<close> are directories.\<close>

lemma is_dir_set_at_other:
  "\<not> prefix p q \<Longrightarrow> is_dir (set_at p v t) q = is_dir t q"
proof (induction p v t arbitrary: q rule: set_at.induct)
  case (1 v n)
  then show ?case by simp
next
  case (2 c v es)
  then show ?case by (cases q) (auto simp: update_conv' delete_conv' split: option.splits)
next
  case (3 c c' cs v es)
  then show ?case by (cases q) (auto simp: update_conv' split: option.splits)
next
  case (4 c cs v b)
  then show ?case by simp
qed


lemma lookup_parent_is_dir: "lookup t (p @ [c]) = Some n \<Longrightarrow> is_dir t p"
proof (induction p arbitrary: t)
  case Nil
  then show ?case by (cases t) simp_all
next
  case (Cons d p)
  then show ?case by (cases t) (auto split: option.splits)
qed

lemma not_prefix_butlast: "p \<noteq> [] \<Longrightarrow> \<not> prefix p (butlast p)"
proof
  assume "p \<noteq> []" and "prefix p (butlast p)"
  from this(2) have "length p \<le> length (butlast p)" by (rule prefix_length_le)
  then have "length p \<le> length p - 1" by (simp only: length_butlast)
  with \<open>p \<noteq> []\<close> show False by (cases p) simp_all
qed

lemma not_prefix_snoc [simp]: "\<not> prefix (d @ [a]) d"
  by (auto dest: prefix_length_le)

text \<open>Writing a file where there is no directory in the way.\<close>

lemma write_file_eq:
  assumes "\<not> is_dir t p" and "has_parent t p"
  shows "write_file p b t = Inr (set_at p (Some (File b)) (set_at p (Some (File [])) t))"
  using assms
  by (simp add: write_file_def open_wb_def append_file_def has_parent_def lookup_set_at_same)

lemma lookup_written:
  assumes "has_parent t p"
  shows "lookup (set_at p (Some (File b)) (set_at p (Some (File [])) t)) p = Some (File b)"
  using assms
  by (simp add: has_parent_def lookup_set_at_same is_dir_set_at_other not_prefix_butlast)

section \<open>Unpacking an archive\<close>













section \<open>Patching the configuration\<close>

lemma with_suffix_config [simp]:
  "with_suffix (config_file w) ''.xml.backup'' = config_dir w @ [''ModsConfig.xml.backup'']"
  by (simp add: with_suffix_def config_file_def name_of_def stem_def)

lemma config_paths_say [simp]:
  "config_dir (say l w) = config_dir w" "config_file (say l w) = config_file w"
  by (simp_all add: config_dir_def config_file_def)

lemma config_paths_fs [simp]:
  "config_dir (w\<lparr>fs := t\<rparr>) = config_dir w" "config_file (w\<lparr>fs := t\<rparr>) = config_file w"
  by (simp_all add: config_dir_def config_file_def)

text \<open>The element the patched root holds under \<^verbatim>\<open>activeMods\<close>, and the list read back from it.\<close>

lemma find_replace_first:
  "el_tag new = tg \<Longrightarrow> \<exists>c\<in>set cs. el_tag c = tg \<Longrightarrow>
   List.find (\<lambda>c. el_tag c = tg) (replace_first tg new cs) = Some new"
  by (induction cs) auto

lemma active_mods_tag [simp]: "el_tag (active_mods_of root) = ''activeMods''"
  by (auto simp: active_mods_of_def find_child_def sub_element_def find_Some_iff
      split: option.splits)

lemma with_active_mods_has:
  "\<exists>c\<in>set (el_children (with_active_mods root)). el_tag c = ''activeMods''"
  by (auto simp: with_active_mods_def find_child_def sub_element_def find_Some_iff find_None_iff
      split: option.splits)

lemma active_mods_of_patched:
  "active_mods_of (patched_root required root) =
     Element ''activeMods'' [] None None
       (map (\<lambda>mod_id. sub_element ''li'' (Some mod_id))
          (rebuilt_mods required (current_mods_of (active_mods_of root))))"
  using with_active_mods_has [of root]
  by (simp add: patched_root_def Let_def active_mods_of_def [of "Element a b c d e" for a b c d e]
      find_child_def find_replace_first)

lemma current_mods_of_items:
  "current_mods_of
     (Element tg attrib txt tail_text (map (\<lambda>mod_id. sub_element ''li'' (Some mod_id)) ids))
     = filter (\<lambda>s. s \<noteq> []) ids"
  by (induction ids) (simp_all add: current_mods_of_def findall_def sub_element_def map_filter_simps)

lemma current_mods_nonempty: "s \<in> set (current_mods_of a) \<Longrightarrow> s \<noteq> []"
  by (auto simp: current_mods_of_def map_filter_def split: option.splits if_splits)

lemma current_mods_of_patched:
  assumes "[] \<notin> set required"
  shows "current_mods_of (active_mods_of (patched_root required root))
     = rebuilt_mods required (current_mods_of (active_mods_of root))"
proof -
  have "filter (\<lambda>s. s \<noteq> []) (rebuilt_mods required (current_mods_of (active_mods_of root)))
      = rebuilt_mods required (current_mods_of (active_mods_of root))"
  proof -
    have "\<forall>s\<in>set (rebuilt_mods required (current_mods_of (active_mods_of root))). s \<noteq> []"
      using assms by (auto simp: rebuilt_mods_def dest: current_mods_nonempty)
    then show ?thesis by (simp add: filter_id_conv)
  qed
  then show ?thesis by (simp add: active_mods_of_patched current_mods_of_items)
qed

text \<open>
  The run that patches: the backup is written first, then the configuration file. \<open>t1\<close>
  is the tree after the copy, \<open>t2\<close> the tree after the write.
\<close>

lemma patch_config_patches:
  assumes cf: "lookup (fs w) (config_file w) = Some (File original)"
    and parse: "xml_parse w original = Inr root"
    and stale: "take 3 (current_mods_of (active_mods_of root)) \<noteq> required_mods"
    and free: "\<not> is_dir (fs w) (config_dir w @ [''ModsConfig.xml.backup''])"
  defines "bk \<equiv> config_dir w @ [''ModsConfig.xml.backup'']"
    and "new \<equiv> xml_serialize w (patched_root required_mods root)"
  defines "t1 \<equiv> set_at bk (Some (File original)) (set_at bk (Some (File [])) (fs w))"
  defines "t2 \<equiv> set_at (config_file w) (Some (File new)) (set_at (config_file w) (Some (File [])) t1)"
  shows "patch_config w =
      (Inr True,
       say [Str ''ModsConfig.xml updated successfully!'']
         ((say [Str ''Backup created at: '', Pth bk] (w\<lparr>fs := t1\<rparr>))\<lparr>fs := t2\<rparr>))"
    and "lookup t2 (config_file w) = Some (File new)"
    and "lookup t2 bk = Some (File original)"
proof -
  have dir: "is_dir (fs w) (config_dir w)"
    using cf by (auto simp: config_file_def dest: lookup_parent_is_dir)
  have parent_bk: "has_parent (fs w) bk"
    using dir by (simp add: has_parent_def bk_def)
  have copy: "copy2 (config_file w) bk (fs w) = Inr t1"
    using cf free parent_bk
    by (simp add: copy2_def t1_def write_file_eq bk_def [symmetric])
       (simp add: bk_def config_file_def)
  have "is_dir t1 (config_file w) = is_dir (fs w) (config_file w)"
    by (simp add: t1_def is_dir_set_at_other bk_def config_file_def)
  then have not_dir: "\<not> is_dir t1 (config_file w)"
    using cf by (simp add: is_dir_def)
  have parent_cf: "has_parent t1 (config_file w)"
    using dir by (simp add: has_parent_def t1_def is_dir_set_at_other bk_def config_file_def)
  have "write_file (config_file w) new t1 = Inr t2"
    using not_dir parent_cf by (simp add: write_file_eq t2_def)
  with copy cf parse stale
  show "patch_config w =
      (Inr True,
       say [Str ''ModsConfig.xml updated successfully!'']
         ((say [Str ''Backup created at: '', Pth bk] (w\<lparr>fs := t1\<rparr>))\<lparr>fs := t2\<rparr>))"
    by (simp add: patch_config_def read_file_def Let_def bk_def [symmetric] new_def)
  show "lookup t2 (config_file w) = Some (File new)"
    using parent_cf by (simp add: t2_def lookup_written)
  have "lookup t2 bk = lookup t1 bk"
    by (simp add: t2_def lookup_set_at_other bk_def config_file_def)
  also have "\<dots> = Some (File original)"
    using parent_bk by (simp add: t1_def lookup_written)
  finally show "lookup t2 bk = Some (File original)" .
qed

text \<open>The run that finds the required identifiers in front changes nothing but the console.\<close>

lemma update_mods_config_noop:
  assumes "lookup (fs w) (config_file w) = Some (File bytes)"
    and "xml_parse w bytes = Inr root"
    and "take 3 (current_mods_of (active_mods_of root)) = required_mods"
  shows "update_mods_config rimworld_path w =
     (Inr True,
      say [Str ''ModsConfig.xml already has the correct configuration. No changes needed.'']
        (say [Str (CHR 0x0A # '' Updating ModsConfig.xml '')] w))"
  using assms
  by (simp add: update_mods_config_def Let_def exists_path_def patch_config_def read_file_def)

lemma take_rebuilt_mods: "take (length required) (rebuilt_mods required current) = required"
  by (simp add: rebuilt_mods_def)

text \<open>What the patching run leaves for the next run to read.\<close>

lemma first_run_state:
  assumes "lookup (fs w) (config_file w) = Some (File original)"
    and "xml_parse w original = Inr root"
    and "take 3 (current_mods_of (active_mods_of root)) \<noteq> required_mods"
    and "\<not> is_dir (fs w) (config_dir w @ [''ModsConfig.xml.backup''])"
  shows "home (snd (update_mods_config rimworld_path w)) = home w"
    and "xml_parse (snd (update_mods_config rimworld_path w)) = xml_parse w"
    and "lookup (fs (snd (update_mods_config rimworld_path w))) (config_file w)
          = Some (File (xml_serialize w (patched_root required_mods root)))"
proof -
  let ?w0 = "say [Str (CHR 0x0A # '' Updating ModsConfig.xml '')] w"
  note run = patch_config_patches [of ?w0 original root]
  have "update_mods_config rimworld_path w = patch_config ?w0"
    using assms run(1) by (simp add: update_mods_config_def Let_def exists_path_def)
  with assms run(1) run(2)
  show "home (snd (update_mods_config rimworld_path w)) = home w"
    and "xml_parse (snd (update_mods_config rimworld_path w)) = xml_parse w"
    and "lookup (fs (snd (update_mods_config rimworld_path w))) (config_file w)
          = Some (File (xml_serialize w (patched_root required_mods root)))"
    by simp_all
qed

lemma config_file_home: "home v = home w \<Longrightarrow> config_file v = config_file w"
  by (simp add: config_file_def config_dir_def)


section \<open>The prompt loop\<close>

lemma input_line_Line:
  "stdin w 0 = Line s \<Longrightarrow>
   input_line prompt w = (Inr s, (say [Str prompt] w)\<lparr>stdin := \<lambda>n. stdin w (Suc n)\<rparr>)"
  by (simp add: input_line_def)

lemma input_line_fields [simp]:
  "fs (snd (input_line prompt w)) = fs w"
  "path_of (snd (input_line prompt w)) = path_of w"
  "stdin (snd (input_line prompt w)) = (\<lambda>n. stdin w (Suc n))"
  "stdout (snd (input_line prompt w)) = stdout w @ [[Str prompt]]"
  by (simp_all add: input_line_def Let_def split: stdin_event.splits)

lemma prompt_loop_rejects:
  assumes "stdin w 0 = Line s" and "\<not> game_directory (fs w) (typed_path w s)"
  shows "prompt_loop w = prompt_loop (rejected w s)"
  using assms
  by (subst prompt_loop.simps)
     (auto simp: input_line_Line Let_def game_directory_def typed_path_def rejected_def)

lemma prompt_loop_accepts:
  assumes "stdin w 0 = Line s" and "game_directory (fs w) (typed_path w s)"
  shows "prompt_loop w =
     Some (Inr (typed_path w s),
           say [Str ''RimWorld installation verified at: '', Pth (typed_path w s)]
             ((say [Str ''Please enter the path to your RimWorld installation: ''] w)
                \<lparr>stdin := \<lambda>n. stdin w (Suc n)\<rparr>))"
  using assms
  by (subst prompt_loop.simps)
     (auto simp: input_line_Line Let_def game_directory_def typed_path_def)

lemma rejected_fields [simp]:
  "fs (rejected w s) = fs w" "path_of (rejected w s) = path_of w"
  "stdin (rejected w s) = (\<lambda>n. stdin w (Suc n))"
  "length (stdout (rejected w s)) = length (stdout w) + 2"
  by (simp_all add: rejected_def)

lemma typed_path_rejected [simp]: "typed_path (rejected w s) r = typed_path w r"
  by (simp add: typed_path_def)

text \<open>One round of the loop, for any continuation \<open>loop\<close>.\<close>

lemma prompt_body_line:
  fixes loop :: "world \<Rightarrow> ((exn + path) \<times> world) option"
  assumes "stdin v 0 = Line s"
  shows "(case input_line ''Please enter the path to your RimWorld installation: '' v of
        (Inl e, w1) \<Rightarrow> Some (Inl e, w1)
      | (Inr s, w1) \<Rightarrow>
          (let user_path = strip_chars [CHR 0x27] (strip_chars [CHR 0x22] s);
               path = path_of w1 user_path
           in if exists_path (fs w1) path \<and> is_dir (fs w1) path then
                if exists_path (fs w1) (path @ [''RimWorldWin64.exe''])
                   \<or> exists_path (fs w1) (path @ [''RimWorldWin.exe''])
                then Some (Inr path, say [Str ''RimWorld installation verified at: '', Pth path] w1)
                else loop
                  (say [Str ''This doesn't appear to be a valid RimWorld installation directory.''] w1)
              else loop (say [Str ''Directory not found. Please try again.''] w1)))
     = (if game_directory (fs v) (typed_path v s)
        then Some (Inr (typed_path v s),
           say [Str ''RimWorld installation verified at: '', Pth (typed_path v s)]
             ((say [Str ''Please enter the path to your RimWorld installation: ''] v)
                \<lparr>stdin := \<lambda>n. stdin v (Suc n)\<rparr>))
        else loop (rejected v s))"
  unfolding input_line_Line [OF assms] Let_def game_directory_def typed_path_def rejected_def
  by simp


lemma prompt_loop_invariant:
  assumes "prompt_loop w = Some y"
  shows "\<forall>p w'. y = (Inr p, w') \<longrightarrow> fs w' = fs w \<and> game_directory (fs w) p"
proof (rule prompt_loop.raw_induct
    [where P = "\<lambda>w y. \<forall>p w'. y = (Inr p, w') \<longrightarrow> fs w' = fs w \<and> game_directory (fs w) p",
     OF _ assms], goal_cases)
  case (1 loop v y)
  note IH = "1"(1) and body = "1"(2)
  show ?case
  proof (cases "stdin v 0")
    case (Line s)
    from body have nf: "(if game_directory (fs v) (typed_path v s)
        then Some (Inr (typed_path v s),
           say [Str ''RimWorld installation verified at: '', Pth (typed_path v s)]
             ((say [Str ''Please enter the path to your RimWorld installation: ''] v)
                \<lparr>stdin := \<lambda>n. stdin v (Suc n)\<rparr>))
        else loop (rejected v s)) = Some y"
      using prompt_body_line [where loop = loop, OF Line] by simp
    show ?thesis
    proof (cases "game_directory (fs v) (typed_path v s)")
      case True
      with nf show ?thesis by auto
    next
      case False
      with nf have "loop (rejected v s) = Some y" by simp
      from IH [OF this] show ?thesis by (simp only: rejected_fields)
    qed
  next
    case EOF
    with body show ?thesis by (auto simp: input_line_def)
  next
    case Interrupt
    with body show ?thesis by (auto simp: input_line_def)
  qed
qed

lemma prompt_loop_returns_game_directory:
  assumes "prompt_loop w = Some (Inr p, w')"
  shows "fs w' = fs w \<and> game_directory (fs w) p"
  using prompt_loop_invariant [OF assms] by blast

lemma prompt_loop_after_rejections:
  assumes "\<forall>i<n. \<exists>r. stdin w i = Line r \<and> \<not> game_directory (fs w) (typed_path w r)"
    and "stdin w n = Line s" and "game_directory (fs w) (typed_path w s)"
  shows "\<exists>w'. prompt_loop w = Some (Inr (typed_path w s), w')
      \<and> (\<forall>k. stdin w' k = stdin w (Suc n + k))
      \<and> length (stdout w') = length (stdout w) + 2 * Suc n"
  using assms
proof (induction n arbitrary: w)
  case 0
  then show ?case by (simp add: prompt_loop_accepts)
next
  case (Suc n)
  from Suc.prems(1) obtain r where r: "stdin w 0 = Line r"
    "\<not> game_directory (fs w) (typed_path w r)"
    by auto
  have "\<exists>w'. prompt_loop (rejected w r) = Some (Inr (typed_path (rejected w r) s), w')
      \<and> (\<forall>k. stdin w' k = stdin (rejected w r) (Suc n + k))
      \<and> length (stdout w') = length (stdout (rejected w r)) + 2 * Suc n"
  proof (rule Suc.IH)
    show "\<forall>i<n. \<exists>ra. stdin (rejected w r) i = Line ra
        \<and> \<not> game_directory (fs (rejected w r)) (typed_path (rejected w r) ra)"
      using Suc.prems(1) by auto
    show "stdin (rejected w r) n = Line s" using Suc.prems(2) by simp
    show "game_directory (fs (rejected w r)) (typed_path (rejected w r) s)"
      using Suc.prems(3) by simp
  qed
  with prompt_loop_rejects [OF r] show ?case by auto
qed

section \<open>What an installation leaves unchanged\<close>

text \<open>
  The functions that fetch, download, unpack and install change the filesystem and the
  console only.
\<close>

lemma unchanged_refl [simp]: "unchanged w w"
  by (simp add: unchanged_def)

lemma unchanged_say [simp]: "unchanged w (say l v) = unchanged w v"
  by (simp add: unchanged_def)

lemma unchanged_fs [simp]: "unchanged w (v\<lparr>fs := t\<rparr>) = unchanged w v"
  by (simp add: unchanged_def)

lemma unchanged_say_left [simp]: "unchanged (say l w) v = unchanged w v"
  by (simp add: unchanged_def)

lemma unchanged_fs_left [simp]: "unchanged (w\<lparr>fs := t\<rparr>) v = unchanged w v"
  by (simp add: unchanged_def)

lemma unchanged_trans: "unchanged w v \<Longrightarrow> unchanged v u \<Longrightarrow> unchanged w u"
  by (simp add: unchanged_def)

lemma catch_exception_unchanged:
  assumes "unchanged w (snd r)" and "\<And>e v. unchanged w v \<Longrightarrow> unchanged w (snd (h e v))"
  shows "unchanged w (snd (catch_exception r h))"
  using assms by (cases r) (auto simp: catch_exception_def split: sum.splits exn.splits)

lemma find_zip_asset_unchanged: "unchanged w (snd (find_zip_asset repo rel assets w))"
  by (induction assets) (auto simp: Let_def split: sum.splits)

lemma zip_url_of_unchanged: "unchanged w (snd (zip_url_of repo rel w))"
  by (simp add: zip_url_of_def find_zip_asset_unchanged split: sum.splits)

lemma first_matching_unchanged:
  "unchanged w (snd (first_matching test none_found repo releases w))"
  by (simp add: first_matching_def zip_url_of_unchanged split: sum.splits list.splits)

lemma release_body_unchanged: "unchanged w (snd (release_body repo release_type w))"
  by (simp add: release_body_def zip_url_of_unchanged first_matching_unchanged split: sum.splits)

lemma get_latest_github_release_unchanged:
  "unchanged w (snd (get_latest_github_release repo release_type w))"
  unfolding get_latest_github_release_def
  by (rule catch_exception_unchanged) (simp_all add: release_body_unchanged report_fetch_error_def)

lemma write_chunks_unchanged: "unchanged w (write_chunks d n cs k v) = unchanged w v"
  by (induction d n cs k v rule: write_chunks.induct) (simp_all add: Let_def)

lemma download_body_unchanged: "unchanged w (snd (download_body url destination w))"
  by (simp add: download_body_def Let_def write_chunks_unchanged split: sum.splits option.splits)

lemma download_file_unchanged: "unchanged w (snd (download_file url destination w))"
  unfolding download_file_def
  by (rule catch_exception_unchanged) (simp_all add: download_body_unchanged)

lemma extract_body_unchanged: "unchanged w (snd (extract_body zip_path extract_to w))"
  by (simp add: extract_body_def Let_def split: sum.splits option.splits prod.splits)

lemma extract_zip_unchanged: "unchanged w (snd (extract_zip zip_path extract_to w))"
  unfolding extract_zip_def
  by (rule catch_exception_unchanged) (simp_all add: extract_body_unchanged)

lemma cleanup_unchanged: "unchanged w (snd (cleanup temp_extract temp_zip result v)) = unchanged w v"
  by (simp add: cleanup_def Let_def split: sum.splits)

lemma install_extracted_unchanged:
  "unchanged w (snd (install_extracted label mods_dir temp_zip temp_extract w))"
  by (simp add: install_extracted_def Let_def cleanup_unchanged
      split: sum.splits list.splits prod.splits)


lemma install_mod_unchanged:
  "unchanged w (snd (install_mod header label repo release_type zip_name temp_name rimworld_path w))"
proof -
  let ?w0 = "(say [Str header] w)"
  show ?thesis
  proof (cases "mkdir_exist_ok (rimworld_path @ [''Mods'']) (fs w)")
    case (Inl e)
    then show ?thesis by (simp add: install_mod_def Let_def)
  next
    case (Inr t)
    let ?wa = "?w0\<lparr>fs := t\<rparr>"
    obtain r1 w1 where got: "get_latest_github_release repo release_type ?wa = (r1, w1)"
      by fastforce
    have u1: "unchanged w w1"
      using get_latest_github_release_unchanged [of ?wa repo release_type] got by simp
    obtain r2 w2 where dl: "download_file (projr r1) (cwd w1 @ [zip_name]) w1 = (r2, w2)"
      by fastforce
    have u2: "unchanged w w2"
      using download_file_unchanged [of w1 "projr r1" "cwd w1 @ [zip_name]"] dl u1
      by (auto intro: unchanged_trans)
    obtain r3 w3 where ex: "extract_zip (cwd w1 @ [zip_name]) (cwd w2 @ [temp_name]) w2 = (r3, w3)"
      by fastforce
    have u3: "unchanged w w3"
      using extract_zip_unchanged [of w2 "cwd w1 @ [zip_name]" "cwd w2 @ [temp_name]"] ex u2
      by (auto intro: unchanged_trans)
    have u4: "unchanged w (snd (install_extracted label (rimworld_path @ [''Mods''])
        (cwd w1 @ [zip_name]) (cwd w2 @ [temp_name]) w3))"
      using install_extracted_unchanged u3 by (rule unchanged_trans [rotated])
    from Inr got dl ex u1 u2 u3 u4 show ?thesis
      by (auto simp: install_mod_def Let_def split: sum.splits)
  qed
qed

lemma install_harmony_mod_unchanged: "unchanged w (snd (install_harmony_mod rimworld_path w))"
  by (simp add: install_harmony_mod_def install_mod_unchanged)

lemma install_rimworld_access_mod_unchanged:
  "unchanged w (snd (install_rimworld_access_mod rimworld_path release_type w))"
  by (simp add: install_rimworld_access_mod_def install_mod_unchanged)

section \<open>Runs on the example machine\<close>

text \<open>The definitions a run on a concrete machine unfolds.\<close>

lemmas run_defs =
  install_harmony_mod_def install_rimworld_access_mod_def install_mod_def install_extracted_def
  extracted_folders_def cleanup_def default_path_def
  machine_def quiet_def game_tree_def machine_tree_def release_def
  mkdir_exist_ok_def get_latest_github_release_def release_body_def zip_url_of_def
  endswith_def api_url_def download_file_def download_body_def requests_get_stream_def
  open_wb_def is_dir_def has_parent_def append_file_def write_file_def read_file_def
  extract_zip_def extract_body_def iterdir_def exists_path_def rmtree_def rmtree_ignore_errors_def
  unlink_missing_ok_def move_def name_of_def Let_def

lemma choose_release_type_stable:
  assumes "stdin w 0 = Line s" and "strip s = ''1''"
  shows "choose_release_type w =
     Some (Inr ''stable'',
           say [Str ''Will download the latest stable release.'']
             ((say [Str (CHR 0x0A # ''Enter your choice (1/2/3): '')] w)
                \<lparr>stdin := \<lambda>n. stdin w (Suc n)\<rparr>))"
  using assms by (subst choose_release_type.simps) (simp add: input_line_Line)

lemma choose_release_type_interrupted:
  assumes "stdin w 0 = Interrupt"
  shows "choose_release_type w =
     Some (Inl KeyboardInterrupt,
           (say [Str (CHR 0x0A # ''Enter your choice (1/2/3): '')] w)
             \<lparr>stdin := \<lambda>n. stdin w (Suc n)\<rparr>)"
  using assms by (subst choose_release_type.simps) (simp add: input_line_def)

lemma pair_fst_snd: "fst r = a \<Longrightarrow> r = (a, snd r)"
  by (cases r) simp

text \<open>The first installation on the example machine, whatever is typed.\<close>

lemma harmony_on_full_install:
  fixes typed :: "nat \<Rightarrow> stdin_event"
  defines "w1 \<equiv> say [Str ''Found RimWorld at: '', Pth default_path]
      (say [Str ''RimWorld Access Mod Installer''] (full_install\<lparr>stdin := typed\<rparr>))"
  shows "find_rimworld_directory
        (say [Str ''RimWorld Access Mod Installer''] (full_install\<lparr>stdin := typed\<rparr>))
      = Some (Inr default_path, w1)"
    and "fst (install_harmony_mod default_path w1) = Inr True"
    and "fs (snd (install_harmony_mod default_path w1))
      = machine_tree [(''Harmony'', harmony_folder)] []"
    and "unchanged (full_install\<lparr>stdin := typed\<rparr>) (snd (install_harmony_mod default_path w1))"
proof -
  show "find_rimworld_directory
        (say [Str ''RimWorld Access Mod Installer''] (full_install\<lparr>stdin := typed\<rparr>))
      = Some (Inr default_path, w1)"
    by (simp add: w1_def find_rimworld_directory_def full_install_def run_defs)
  show "fst (install_harmony_mod default_path w1) = Inr True"
    by (simp add: w1_def full_install_def run_defs)
  show "fs (snd (install_harmony_mod default_path w1))
      = machine_tree [(''Harmony'', harmony_folder)] []"
    by (simp add: w1_def full_install_def harmony_folder_def run_defs)
  show "unchanged (full_install\<lparr>stdin := typed\<rparr>) (snd (install_harmony_mod default_path w1))"
    using install_harmony_mod_unchanged [of w1 default_path] by (simp add: w1_def)
qed


text \<open>The second installation, on any world that has the state the first one left.\<close>

lemma access_on_full_install:
  assumes "fs v = machine_tree [(''Harmony'', harmony_folder)] []"
    and "cwd v = cwd full_install" and "http_json v = http_json full_install"
    and "http_stream v = http_stream full_install" and "unzip v = unzip full_install"
    and "listing_key v = listing_key full_install"
  shows "fst (install_rimworld_access_mod default_path ''stable'' v) = Inr True"
    and "fs (snd (install_rimworld_access_mod default_path ''stable'' v))
      = machine_tree [(''Harmony'', harmony_folder), (''RimWorldAccess'', access_folder)] []"
  by (simp_all add: assms full_install_def harmony_folder_def access_folder_def run_defs)

lemma update_mods_config_parse_error:
  assumes "lookup (fs v) (config_file v) = Some (File bytes)"
    and "xml_parse v bytes = Inl (Exception c)"
  shows "update_mods_config rimworld_path v =
     (Inr False,
      say [Str ''Error updating ModsConfig.xml: '', Err (Exception c)]
        (say [Str (CHR 0x0A # '' Updating ModsConfig.xml '')] v))"
  using assms
  by (simp add: update_mods_config_def Let_def exists_path_def patch_config_def read_file_def)

section \<open>Replacing an installed folder\<close>
































section \<open>An unknown release type\<close>

text \<open>
  Claim C10, as amended. For a release type other than \<^verbatim>\<open>stable\<close>, \<^verbatim>\<open>beta\<close> and \<^verbatim>\<open>dev\<close>,
  \<^verbatim>\<open>get_latest_github_release\<close> asks for the list of releases and returns \<^verbatim>\<open>None\<close>
  whatever the answer is; it never raises an \<^verbatim>\<open>Exception\<close> and never returns a URL.
  What it reports depends on the answer: the failure of the request, that no releases
  were found when the list is empty, and the invalid release type only when the list
  is not empty. Only an interrupt of the request leaves the function.
\<close>

theorem invalid_release_type_returns_none:
  assumes "release_type \<noteq> ''stable''" and "release_type \<noteq> ''beta''"
    and "release_type \<noteq> ''dev''"
  shows "get_latest_github_release repo release_type w =
     (case http_json w (api_url repo ''/releases'') of
        Inl KeyboardInterrupt \<Rightarrow> (Inl KeyboardInterrupt, w)
      | Inl (Exception c) \<Rightarrow>
          (Inr JNull,
           say [Str ''Error fetching release info from GitHub: '', Err (Exception c)] w)
      | Inr releases \<Rightarrow>
          if py_truthy releases
          then (Inr JNull, say [Str ''Invalid release_type: '', Str release_type] w)
          else (Inr JNull, say [Str ''No releases found for '', Str repo] w))"
  using assms
  by (simp add: get_latest_github_release_def release_body_def report_fetch_error_def
      split: sum.splits exn.splits)

text \<open>The theorem at the release type \<^verbatim>\<open>nightly\<close>, on a repository with one release.\<close>

theorem invalid_release_type_witness:
  "get_latest_github_release ''o/r'' ''nightly'' one_release =
     (Inr JNull, say [Str ''Invalid release_type: '', Str ''nightly''] one_release)"
  using invalid_release_type_returns_none [of "''nightly''" "''o/r''" one_release]
  by (simp add: one_release_def)

text \<open>
  The claim as it was stated fails on a repository without releases: the function
  returns \<^verbatim>\<open>None\<close>, and the one line it prints does not report the release type.
\<close>

theorem invalid_release_type_unreported:
  "fst (get_latest_github_release ''o/r'' ''nightly'' empty_listing) = Inr JNull
   \<and> stdout (snd (get_latest_github_release ''o/r'' ''nightly'' empty_listing))
       = [[Str ''No releases found for '', Str ''o/r'']]"
  by (simp add: get_latest_github_release_def release_body_def empty_listing_def quiet_def)

section \<open>The beta and dev channels\<close>

text \<open>
  Claim C4. When the API answers with a list of releases, each with its tag, channel
  \<^verbatim>\<open>beta\<close> selects the first release of the list, in the order given, whose tag contains
  \<^verbatim>\<open>-beta\<close> whatever the case of its letters, and channel \<^verbatim>\<open>dev\<close> the first whose tag is
  \<^verbatim>\<open>dev\<close> whatever the case of its letters: the function goes on with the assets of that
  release. When no release of the list matches, the function returns \<^verbatim>\<open>None\<close> and says
  which kind of release was not found. The two channels are \<open>beta_tag\<close> and \<open>dev_tag\<close>,
  which spell out the letters.
\<close>

theorem beta_and_dev_select_first_match:
  assumes "http_json w (api_url repo ''/releases'') = Inr (JArr rs)"
    and "\<forall>r\<in>set rs. has_tag r"
  shows "get_latest_github_release repo ''beta'' w =
       (case List.find (\<lambda>r. beta_tag (tag_of r)) rs of
          Some r \<Rightarrow> catch_exception (zip_url_of repo r w) report_fetch_error
        | None \<Rightarrow>
            (Inr JNull,
             say (if rs = [] then [Str ''No releases found for '', Str repo]
                  else [Str ''No beta releases found for '', Str repo]) w))
     \<and> get_latest_github_release repo ''dev'' w =
       (case List.find (\<lambda>r. dev_tag (tag_of r)) rs of
          Some r \<Rightarrow> catch_exception (zip_url_of repo r w) report_fetch_error
        | None \<Rightarrow>
            (Inr JNull,
             say (if rs = [] then [Str ''No releases found for '', Str repo]
                  else [Str ''No 'dev' tag found for '', Str repo]) w))"
  using beta_selection [OF assms] dev_selection [OF assms]
  by (simp only: beta_tag_lower dev_tag_lower)

text \<open>
  The theorem on two lists. On \<^verbatim>\<open>v1.0\<close>, \<^verbatim>\<open>V3-BETA.1\<close>, \<^verbatim>\<open>v2-beta\<close>, \<^verbatim>\<open>DeV\<close>, \<^verbatim>\<open>dev\<close> channel
  \<^verbatim>\<open>beta\<close> returns the archive of \<^verbatim>\<open>V3-BETA.1\<close> and channel \<^verbatim>\<open>dev\<close> that of \<^verbatim>\<open>DeV\<close>: the
  first match, which is neither the first release nor written in small letters. On
  \<^verbatim>\<open>beta1\<close>, \<^verbatim>\<open>v1-bet-a\<close>, \<^verbatim>\<open>nightly-dev\<close>, \<^verbatim>\<open>devel\<close> both channels return \<^verbatim>\<open>None\<close>: a tag
  without the whole marker is no beta release, and a tag that only contains \<^verbatim>\<open>dev\<close> is no
  dev release.
\<close>

theorem beta_and_dev_on_two_releases:
  "get_latest_github_release ''o/r'' ''beta'' mixed_case_releases =
     (Inr (JStr ''https://example.org/V3-BETA.1/mod.zip''),
      say [Str ''Found release: '', Val (JStr ''V3-BETA.1''), Str '' - '',
           Val (JStr ''Release V3-BETA.1'')] mixed_case_releases)
   \<and> get_latest_github_release ''o/r'' ''dev'' mixed_case_releases =
     (Inr (JStr ''https://example.org/DeV/mod.zip''),
      say [Str ''Found release: '', Val (JStr ''DeV''), Str '' - '',
           Val (JStr ''Release DeV'')] mixed_case_releases)
   \<and> get_latest_github_release ''o/r'' ''beta'' near_misses =
     (Inr JNull, say [Str ''No beta releases found for '', Str ''o/r''] near_misses)
   \<and> get_latest_github_release ''o/r'' ''dev'' near_misses =
     (Inr JNull, say [Str ''No 'dev' tag found for '', Str ''o/r''] near_misses)"
  using beta_and_dev_select_first_match
    [of mixed_case_releases "''o/r''"
       "[release ''v1.0'', release ''V3-BETA.1'', release ''v2-beta'', release ''DeV'',
         release ''dev'']"]
    beta_and_dev_select_first_match
    [of near_misses "''o/r''"
       "[release ''beta1'', release ''v1-bet-a'', release ''nightly-dev'', release ''devel'']"]
  by (simp add: mixed_case_releases_def near_misses_def quiet_def release_def has_tag_def
      tag_of_def beta_tag_def dev_tag_def suffixes.simps zip_url_of_def endswith_def)

section \<open>The archive of the selected release\<close>

text \<open>
  Claim C7. \<^verbatim>\<open>get_latest_github_release\<close> never lets an \<^verbatim>\<open>Exception\<close> out. On channel
  \<^verbatim>\<open>stable\<close> the release selected is the answer of the API; within a selected release
  whose assets are named, the function returns the download URL of the first asset
  whose name ends in \<^verbatim>\<open>.zip\<close>, after announcing the release, and returns \<^verbatim>\<open>None\<close> with a
  message when there is no such asset (also when that asset has no URL). It returns
  \<^verbatim>\<open>None\<close> with a message as well when no release of the list matches the channel, and
  when the HTTP call fails.
\<close>

theorem first_zip_asset_or_none:
  "(\<forall>c. fst (get_latest_github_release repo release_type w) \<noteq> Inl (Exception c))
   \<and> (\<forall>rel. http_json w (api_url repo ''/releases/latest'') = Inr rel \<longrightarrow>
         get_latest_github_release repo ''stable'' w =
           catch_exception (zip_url_of repo rel w) report_fetch_error)
   \<and> (\<forall>kvs assets.
         map_of kvs ''assets'' = Some (JArr assets) \<and> (\<forall>a\<in>set assets. asset_name a \<noteq> None) \<longrightarrow>
         catch_exception (zip_url_of repo (JObj kvs) w) report_fetch_error =
           (case List.find is_zip_asset assets of
              None \<Rightarrow>
                (Inr JNull, say [Str ''No zip file found in latest release for '', Str repo] w)
            | Some a \<Rightarrow>
                (case download_url a of
                   Some url \<Rightarrow> (Inr url, say (found_release kvs) w)
                 | None \<Rightarrow>
                     (Inr JNull,
                      say [Str ''Error fetching release info from GitHub: '',
                           Err (Exception ''KeyError'')]
                        (say (found_release kvs) w)))))
   \<and> (\<forall>rs. http_json w (api_url repo ''/releases'') = Inr (JArr rs)
            \<and> (\<forall>r\<in>set rs. has_tag r \<and> \<not> contains ''-beta'' (lower (tag_of r))) \<longrightarrow>
         get_latest_github_release repo ''beta'' w =
           (Inr JNull,
            say (if rs = [] then [Str ''No releases found for '', Str repo]
                 else [Str ''No beta releases found for '', Str repo]) w))
   \<and> (\<forall>rs. http_json w (api_url repo ''/releases'') = Inr (JArr rs)
            \<and> (\<forall>r\<in>set rs. has_tag r \<and> lower (tag_of r) \<noteq> ''dev'') \<longrightarrow>
         get_latest_github_release repo ''dev'' w =
           (Inr JNull,
            say (if rs = [] then [Str ''No releases found for '', Str repo]
                 else [Str ''No 'dev' tag found for '', Str repo]) w))
   \<and> (\<forall>c. http_json w
              (api_url repo (if release_type = ''stable'' then ''/releases/latest'' else ''/releases''))
              = Inl (Exception c) \<longrightarrow>
         get_latest_github_release repo release_type w =
           (Inr JNull,
            say [Str ''Error fetching release info from GitHub: '', Err (Exception c)] w))"
proof (intro conjI allI impI)
  fix c show "fst (get_latest_github_release repo release_type w) \<noteq> Inl (Exception c)"
    by (rule release_never_raises)
next
  fix rel assume "http_json w (api_url repo ''/releases/latest'') = Inr rel"
  then show "get_latest_github_release repo ''stable'' w =
      catch_exception (zip_url_of repo rel w) report_fetch_error"
    by (rule stable_selection)
next
  fix kvs assets
  assume h: "map_of kvs ''assets'' = Some (JArr assets) \<and> (\<forall>a\<in>set assets. asset_name a \<noteq> None)"
  from zip_url_of_find [OF conjunct1 [OF h] conjunct2 [OF h], of repo w] show "catch_exception (zip_url_of repo (JObj kvs) w) report_fetch_error =
      (case List.find is_zip_asset assets of
         None \<Rightarrow>
           (Inr JNull, say [Str ''No zip file found in latest release for '', Str repo] w)
       | Some a \<Rightarrow>
           (case download_url a of
              Some url \<Rightarrow> (Inr url, say (found_release kvs) w)
            | None \<Rightarrow>
                (Inr JNull,
                 say [Str ''Error fetching release info from GitHub: '',
                      Err (Exception ''KeyError'')]
                   (say (found_release kvs) w))))"
    by (simp add: report_fetch_error_def split: option.splits)
next
  fix rs
  assume a: "http_json w (api_url repo ''/releases'') = Inr (JArr rs)
      \<and> (\<forall>r\<in>set rs. has_tag r \<and> \<not> contains ''-beta'' (lower (tag_of r)))"
  then have "List.find (\<lambda>r. contains ''-beta'' (lower (tag_of r))) rs = None"
    by (simp add: find_None_iff)
  with a beta_selection [of w repo rs]
  show "get_latest_github_release repo ''beta'' w =
      (Inr JNull,
       say (if rs = [] then [Str ''No releases found for '', Str repo]
            else [Str ''No beta releases found for '', Str repo]) w)"
    by simp
next
  fix rs
  assume a: "http_json w (api_url repo ''/releases'') = Inr (JArr rs)
      \<and> (\<forall>r\<in>set rs. has_tag r \<and> lower (tag_of r) \<noteq> ''dev'')"
  then have "List.find (\<lambda>r. lower (tag_of r) = ''dev'') rs = None"
    by (simp add: find_None_iff)
  with a dev_selection [of w repo rs]
  show "get_latest_github_release repo ''dev'' w =
      (Inr JNull,
       say (if rs = [] then [Str ''No releases found for '', Str repo]
            else [Str ''No 'dev' tag found for '', Str repo]) w)"
    by simp
next
  fix c
  assume "http_json w
      (api_url repo (if release_type = ''stable'' then ''/releases/latest'' else ''/releases''))
      = Inl (Exception c)"
  then show "get_latest_github_release repo release_type w =
      (Inr JNull, say [Str ''Error fetching release info from GitHub: '', Err (Exception c)] w)"
    by (rule http_failure_reported)
qed

text \<open>
  The theorem on four worlds: a stable release with an archive, one without, a list of
  releases none of which is tagged \<^verbatim>\<open>dev\<close>, and a request that fails.
\<close>

theorem first_zip_asset_or_none_witness:
  "get_latest_github_release ''o/r'' ''stable'' stable_release =
     (Inr (JStr ''https://example.org/v1.0/mod.zip''),
      say [Str ''Found release: '', Val (JStr ''v1.0''), Str '' - '', Val (JStr ''Release v1.0'')]
        stable_release)
   \<and> get_latest_github_release ''o/r'' ''stable'' no_archive =
     (Inr JNull, say [Str ''No zip file found in latest release for '', Str ''o/r''] no_archive)
   \<and> get_latest_github_release ''o/r'' ''dev'' two_releases =
     (Inr JNull, say [Str ''No 'dev' tag found for '', Str ''o/r''] two_releases)
   \<and> get_latest_github_release ''o/r'' ''stable'' quiet =
     (Inr JNull,
      say [Str ''Error fetching release info from GitHub: '', Err (Exception ''ConnectionError'')]
        quiet)"
proof (intro conjI)
  let ?assets = "[JObj [(''name'', JStr ''notes.txt''),
                        (''browser_download_url'', JStr ''https://example.org/v1.0/notes.txt'')],
                  JObj [(''name'', JStr ''mod.zip''),
                        (''browser_download_url'', JStr ''https://example.org/v1.0/mod.zip'')]]"
  let ?kvs = "[(''tag_name'', JStr ''v1.0''), (''name'', JStr ''Release v1.0''),
               (''assets'', JArr ?assets)]"
  note t = first_zip_asset_or_none [of "''o/r''" "''stable''" stable_release]
  have sel: "get_latest_github_release ''o/r'' ''stable'' stable_release =
      catch_exception (zip_url_of ''o/r'' (JObj ?kvs) stable_release) report_fetch_error"
    using t by (simp add: stable_release_def quiet_def release_def)
  have "catch_exception (zip_url_of ''o/r'' (JObj ?kvs) stable_release) report_fetch_error =
      (Inr (JStr ''https://example.org/v1.0/mod.zip''),
       say [Str ''Found release: '', Val (JStr ''v1.0''), Str '' - '', Val (JStr ''Release v1.0'')]
         stable_release)"
    using t [THEN conjunct2, THEN conjunct2, THEN conjunct1, rule_format, of ?kvs ?assets]
    by (simp add: asset_name_def is_zip_asset_def download_url_def found_release_def endswith_def)
  with sel show "get_latest_github_release ''o/r'' ''stable'' stable_release =
     (Inr (JStr ''https://example.org/v1.0/mod.zip''),
      say [Str ''Found release: '', Val (JStr ''v1.0''), Str '' - '', Val (JStr ''Release v1.0'')]
        stable_release)"
    by simp
next
  let ?assets = "[JObj [(''name'', JStr ''notes.txt''),
                        (''browser_download_url'', JStr ''https://example.org/notes.txt'')]]"
  let ?kvs = "[(''tag_name'', JStr ''v1.0''), (''assets'', JArr ?assets)]"
  note t = first_zip_asset_or_none [of "''o/r''" "''stable''" no_archive]
  have sel: "get_latest_github_release ''o/r'' ''stable'' no_archive =
      catch_exception (zip_url_of ''o/r'' (JObj ?kvs) no_archive) report_fetch_error"
    using t by (simp add: no_archive_def quiet_def)
  have "catch_exception (zip_url_of ''o/r'' (JObj ?kvs) no_archive) report_fetch_error =
      (Inr JNull, say [Str ''No zip file found in latest release for '', Str ''o/r''] no_archive)"
    using t [THEN conjunct2, THEN conjunct2, THEN conjunct1, rule_format, of ?kvs ?assets]
    by (simp add: asset_name_def is_zip_asset_def endswith_def)
  with sel show "get_latest_github_release ''o/r'' ''stable'' no_archive =
     (Inr JNull, say [Str ''No zip file found in latest release for '', Str ''o/r''] no_archive)"
    by simp
next
  show "get_latest_github_release ''o/r'' ''dev'' two_releases =
     (Inr JNull, say [Str ''No 'dev' tag found for '', Str ''o/r''] two_releases)"
    using first_zip_asset_or_none [of "''o/r''" "''dev''" two_releases,
        THEN conjunct2, THEN conjunct2, THEN conjunct2, THEN conjunct2, THEN conjunct1,
        rule_format, of "[release ''v2.0-beta'', release ''v1.0'']"]
    by (simp add: two_releases_def quiet_def release_def has_tag_def tag_of_def lower_char_def)
next
  show "get_latest_github_release ''o/r'' ''stable'' quiet =
     (Inr JNull,
      say [Str ''Error fetching release info from GitHub: '', Err (Exception ''ConnectionError'')]
        quiet)"
    using first_zip_asset_or_none [of "''o/r''" "''stable''" quiet]
    by (simp add: quiet_def)
qed

section \<open>Errors of a download stay inside \<^verbatim>\<open>download_file\<close>\<close>

text \<open>
  Claim C8. For every URL, destination and world, no exception of class \<^verbatim>\<open>Exception\<close>
  leaves \<^verbatim>\<open>download_file\<close>. When the download completes the function returns \<^verbatim>\<open>True\<close>,
  after the line that says so; when a step of it fails with an error (the request,
  the size, the opening of the destination or the stream) the function returns
  \<^verbatim>\<open>False\<close>, and the last line printed names that error. An interrupt is not an error:
  it is left to \<^verbatim>\<open>main\<close>.
\<close>

theorem download_file_contains_errors:
  "(\<forall>c. fst (download_file url destination w) \<noteq> Inl (Exception c))
   \<and> (download_failure url destination w = None \<longrightarrow>
        fst (download_file url destination w) = Inr True
        \<and> last (stdout (snd (download_file url destination w)))
            = [Str (CHR 0x0A # ''Download complete!'')])
   \<and> (\<forall>c. download_failure url destination w = Some (Exception c) \<longrightarrow>
        fst (download_file url destination w) = Inr False
        \<and> last (stdout (snd (download_file url destination w)))
            = [Str (CHR 0x0A # ''Error downloading file: ''), Err (Exception c)])"
  using download_file_never_raises download_file_completes download_file_fails
  by blast

text \<open>
  The theorem on three downloads: one that completes, one whose stream breaks, and one
  whose destination has no directory to be written in.
\<close>

theorem download_file_contains_errors_witness:
  "fst (download_file (JStr ''https://example.org/mod.zip'') [''C:'', ''work'', ''mod.zip'']
          good_download) = Inr True
   \<and> fst (download_file (JStr ''https://example.org/mod.zip'') [''C:'', ''work'', ''mod.zip'']
          broken_download) = Inr False
   \<and> last (stdout (snd (download_file (JStr ''https://example.org/mod.zip'')
          [''C:'', ''work'', ''mod.zip''] broken_download)))
       = [Str (CHR 0x0A # ''Error downloading file: ''), Err (Exception ''ConnectionError'')]
   \<and> fst (download_file (JStr ''https://example.org/mod.zip'') [''C:'', ''nowhere'', ''mod.zip'']
          good_download) = Inr False"
  using
    download_file_contains_errors [of "JStr ''https://example.org/mod.zip''"
      "[''C:'', ''work'', ''mod.zip'']" good_download]
    download_file_contains_errors [of "JStr ''https://example.org/mod.zip''"
      "[''C:'', ''work'', ''mod.zip'']" broken_download]
    download_file_contains_errors [of "JStr ''https://example.org/mod.zip''"
      "[''C:'', ''nowhere'', ''mod.zip'']" good_download]
  by (simp add: download_failure_def good_download_def broken_download_def machine_def
      quiet_def game_tree_def machine_tree_def requests_get_stream_def open_wb_def is_dir_def has_parent_def
      os_error_def)

section \<open>The patch of the configuration file\<close>

text \<open>
  Claim C1. Let the configuration file parse, let its enabled list not start with the
  three required identifiers in order, and let no directory stand where the backup
  goes. Then \<^verbatim>\<open>update_mods_config\<close> succeeds; the configuration file holds the document
  whose \<^verbatim>\<open>activeMods\<close> element has exactly these children: the three required
  identifiers in their fixed order, then every identifier of the old list that is not
  required, in the old order (one that occurs twice is kept twice); and the backup
  holds the bytes the configuration file had. On the list \<^verbatim>\<open>x.mod\<close>, \<^verbatim>\<open>harmony.id\<close> with
  the required list \<^verbatim>\<open>harmony.id\<close>, \<^verbatim>\<open>base.id\<close>, \<^verbatim>\<open>access.id\<close>, the two loops that fill the
  element give \<^verbatim>\<open>harmony.id\<close>, \<^verbatim>\<open>base.id\<close>, \<^verbatim>\<open>access.id\<close>, \<^verbatim>\<open>x.mod\<close>.
\<close>

theorem update_mods_config_rewrites:
  assumes "lookup (fs w) (config_file w) = Some (File original)"
    and "xml_parse w original = Inr root"
    and "take 3 (current_mods_of (active_mods_of root)) \<noteq> required_mods"
    and "\<not> is_dir (fs w) (with_suffix (config_file w) ''.xml.backup'')"
  shows "fst (update_mods_config rimworld_path w) = Inr True
     \<and> lookup (fs (snd (update_mods_config rimworld_path w))) (config_file w)
         = Some (File (xml_serialize w (patched_root required_mods root)))
     \<and> el_children (active_mods_of (patched_root required_mods root))
         = map (\<lambda>mod_id. sub_element ''li'' (Some mod_id))
             (required_mods
              @ filter (\<lambda>mod_id. mod_id \<notin> set required_mods)
                  (current_mods_of (active_mods_of root)))
     \<and> lookup (fs (snd (update_mods_config rimworld_path w)))
           (with_suffix (config_file w) ''.xml.backup'')
         = Some (File original)
     \<and> rebuilt_mods [''harmony.id'', ''base.id'', ''access.id''] [''x.mod'', ''harmony.id'']
         = [''harmony.id'', ''base.id'', ''access.id'', ''x.mod'']"
proof -
  let ?w0 = "say [Str (CHR 0x0A # '' Updating ModsConfig.xml '')] w"
  have there: "exists_path (fs ?w0) (config_file ?w0)"
    using assms(1) by (simp add: exists_path_def)
  note run = patch_config_patches [of ?w0 original root]
  have "fst (patch_config ?w0) = Inr True"
    using assms run(1) by simp
  moreover have "lookup (fs (snd (patch_config ?w0))) (config_file w)
      = Some (File (xml_serialize w (patched_root required_mods root)))"
    using assms run(1) run(2) by simp
  moreover have "lookup (fs (snd (patch_config ?w0))) (config_dir w @ [''ModsConfig.xml.backup''])
      = Some (File original)"
    using assms run(1) run(3) by simp
  moreover have "update_mods_config rimworld_path w = patch_config ?w0"
    using there assms run(1) by (simp add: update_mods_config_def Let_def)
  ultimately show ?thesis
    by (simp add: active_mods_of_patched rebuilt_mods_def)
qed

text \<open>
  The theorem on a configuration that enables \<^verbatim>\<open>x.mod\<close> and Harmony: the patched file
  enables Harmony, the game, the access mod and \<^verbatim>\<open>x.mod\<close>, and the backup is the old file.
\<close>

theorem update_mods_config_rewrites_witness:
  "fst (update_mods_config default_path configured) = Inr True
   \<and> lookup (fs (snd (update_mods_config default_path configured)))
         (config_dir configured @ [''ModsConfig.xml'']) = Some (File ''<new/>'')
   \<and> el_children (active_mods_of (patched_root required_mods old_config))
       = [Element ''li'' [] (Some ''brrainz.harmony'') None [],
          Element ''li'' [] (Some ''ludeon.rimworld'') None [],
          Element ''li'' [] (Some ''shane12300.rimworldaccess'') None [],
          Element ''li'' [] (Some ''x.mod'') None []]
   \<and> lookup (fs (snd (update_mods_config default_path configured)))
         (config_dir configured @ [''ModsConfig.xml.backup'']) = Some (File ''<old/>'')"
proof -
  have "lookup (fs configured) (config_file configured) = Some (File ''<old/>'')"
    by (simp add: configured_def machine_def quiet_def game_tree_def machine_tree_def config_file_def config_dir_def)
  moreover have "xml_parse configured ''<old/>'' = Inr old_config"
    by (simp add: configured_def machine_def quiet_def)
  moreover have "take 3 (current_mods_of (active_mods_of old_config)) \<noteq> required_mods"
    by (simp add: old_config_def active_mods_of_def find_child_def current_mods_of_def findall_def
        map_filter_simps required_mods_def)
  moreover have "\<not> is_dir (fs configured) (with_suffix (config_file configured) ''.xml.backup'')"
    by (simp add: configured_def machine_def quiet_def game_tree_def machine_tree_def config_dir_def)
  moreover have "current_mods_of (active_mods_of old_config) = [''x.mod'', ''brrainz.harmony'']"
    by (simp add: old_config_def active_mods_of_def find_child_def current_mods_of_def findall_def
        map_filter_simps)
  moreover have "xml_serialize configured (patched_root required_mods old_config) = ''<new/>''"
    by (simp add: configured_def machine_def quiet_def)
  ultimately show ?thesis
    using update_mods_config_rewrites [of configured "''<old/>''" old_config default_path]
    by (simp add: required_mods_def sub_element_def) (simp add: config_file_def)
qed

section \<open>Patching twice\<close>

text \<open>
  Claim C2. After a run that patched the configuration file, on a machine whose XML
  library reads the file it wrote back with the same enabled list, every following
  run of \<^verbatim>\<open>update_mods_config\<close> succeeds, says that no changes are needed, and leaves the
  filesystem as the patching run left it: it writes nothing to the configuration file
  and makes no backup. \<open>runs p (Suc n) w\<close> is the world after the patching run and \<open>n\<close>
  further runs.
\<close>

theorem update_mods_config_idempotent:
  assumes "lookup (fs w) (config_file w) = Some (File original)"
    and "xml_parse w original = Inr root"
    and "take 3 (current_mods_of (active_mods_of root)) \<noteq> required_mods"
    and "\<not> is_dir (fs w) (with_suffix (config_file w) ''.xml.backup'')"
    and "xml_parse w (xml_serialize w (patched_root required_mods root)) = Inr root'"
    and "current_mods_of (active_mods_of root')
           = current_mods_of (active_mods_of (patched_root required_mods root))"
  shows "fst (update_mods_config rimworld_path (runs rimworld_path (Suc n) w)) = Inr True
     \<and> fs (runs rimworld_path (Suc (Suc n)) w) = fs (runs rimworld_path (Suc 0) w)
     \<and> last (stdout (runs rimworld_path (Suc (Suc n)) w))
         = [Str ''ModsConfig.xml already has the correct configuration. No changes needed.'']"
proof -
  let ?new = "xml_serialize w (patched_root required_mods root)"
  let ?v = "\<lambda>n. runs rimworld_path (Suc n) w"
  have "current_mods_of (active_mods_of (patched_root required_mods root))
      = rebuilt_mods required_mods (current_mods_of (active_mods_of root))"
    by (rule current_mods_of_patched) (simp add: required_mods_def)
  moreover have "length required_mods = 3"
    by (simp add: required_mods_def)
  ultimately have required: "take 3 (current_mods_of (active_mods_of root')) = required_mods"
    using take_rebuilt_mods [of required_mods "current_mods_of (active_mods_of root)"]
    by (simp add: assms(6))
  have noop: "update_mods_config rimworld_path v =
      (Inr True,
       say [Str ''ModsConfig.xml already has the correct configuration. No changes needed.'']
         (say [Str (CHR 0x0A # '' Updating ModsConfig.xml '')] v))"
    if "home v = home w" "xml_parse v = xml_parse w" "lookup (fs v) (config_file w) = Some (File ?new)"
    for v
    using that assms(5) required config_file_home [of v w]
    by (intro update_mods_config_noop [of v ?new root']) simp_all
  have inv: "fs (?v n) = fs (?v 0) \<and> home (?v n) = home w \<and> xml_parse (?v n) = xml_parse w
      \<and> lookup (fs (?v n)) (config_file w) = Some (File ?new)" for n
  proof (induction n)
    case 0
    then show ?case
      using first_run_state [of w original root rimworld_path] assms(1-4) by simp
  next
    case (Suc n)
    then have same: "fs (?v n) = fs (?v 0)"
      and facts: "home (?v n) = home w" "xml_parse (?v n) = xml_parse w"
        "lookup (fs (?v n)) (config_file w) = Some (File ?new)"
      by blast+
    from noop [OF facts] same facts show ?case by simp
  qed
  from inv [of n] have same: "fs (?v n) = fs (?v 0)"
    and facts: "home (?v n) = home w" "xml_parse (?v n) = xml_parse w"
      "lookup (fs (?v n)) (config_file w) = Some (File ?new)"
    by blast+
  from noop [OF facts] same show ?thesis by simp
qed

text \<open>The theorem on the configuration patched in the example above.\<close>

theorem update_mods_config_idempotent_witness:
  "fst (update_mods_config default_path (runs default_path (Suc 0) configured)) = Inr True
   \<and> fs (runs default_path (Suc (Suc 0)) configured) = fs (runs default_path (Suc 0) configured)
   \<and> last (stdout (runs default_path (Suc (Suc 0)) configured))
       = [Str ''ModsConfig.xml already has the correct configuration. No changes needed.'']"
proof -
  have "lookup (fs configured) (config_file configured) = Some (File ''<old/>'')"
    by (simp add: configured_def machine_def quiet_def game_tree_def machine_tree_def config_file_def config_dir_def)
  moreover have "xml_parse configured ''<old/>'' = Inr old_config"
    by (simp add: configured_def machine_def quiet_def)
  moreover have "take 3 (current_mods_of (active_mods_of old_config)) \<noteq> required_mods"
    by (simp add: old_config_def active_mods_of_def find_child_def current_mods_of_def findall_def
        map_filter_simps required_mods_def)
  moreover have "\<not> is_dir (fs configured) (with_suffix (config_file configured) ''.xml.backup'')"
    by (simp add: configured_def machine_def quiet_def game_tree_def machine_tree_def config_dir_def)
  moreover have "xml_parse configured (xml_serialize configured (patched_root required_mods old_config))
      = Inr (patched_root required_mods old_config)"
    by (simp add: configured_def machine_def quiet_def)
  ultimately show ?thesis
    using update_mods_config_idempotent
      [of configured "''<old/>''" old_config "patched_root required_mods old_config" default_path 0]
    by simp
qed

section \<open>The path the prompt loop returns\<close>

text \<open>
  Claim C9. When the game is not at its default place, \<^verbatim>\<open>find_rimworld_directory\<close> is
  its prompt loop. A path the loop returns exists, is a directory and holds an entry
  named \<^verbatim>\<open>RimWorldWin64.exe\<close> or \<^verbatim>\<open>RimWorldWin.exe\<close> (the loop does not touch the
  filesystem). A line that names no such directory is rejected: the loop goes round
  again on the rest of the input. There is no bound on the rounds: after any number
  \<open>n\<close> of lines rejected, a line that names the game directory is accepted, and the
  loop has printed two lines for each of the \<open>n + 1\<close> rounds.
\<close>

theorem prompt_loop_returns_only_game_directories:
  "(\<not> (exists_path (fs w) default_path \<and> is_dir (fs w) default_path) \<longrightarrow>
      find_rimworld_directory w =
        prompt_loop (say [Str ''RimWorld not found at default location: '', Pth default_path] w))
   \<and> (\<forall>p w'. prompt_loop w = Some (Inr p, w') \<longrightarrow>
         fs w' = fs w \<and> exists_path (fs w') p \<and> is_dir (fs w') p
         \<and> (exists_path (fs w') (p @ [''RimWorldWin64.exe''])
              \<or> exists_path (fs w') (p @ [''RimWorldWin.exe''])))
   \<and> (\<forall>s. stdin w 0 = Line s \<and> \<not> game_directory (fs w) (typed_path w s) \<longrightarrow>
         prompt_loop w = prompt_loop (rejected w s))
   \<and> (\<forall>n s. (\<forall>i<n. \<exists>r. stdin w i = Line r \<and> \<not> game_directory (fs w) (typed_path w r))
           \<and> stdin w n = Line s \<and> game_directory (fs w) (typed_path w s) \<longrightarrow>
         (\<exists>w'. prompt_loop w = Some (Inr (typed_path w s), w')
            \<and> (\<forall>k. stdin w' k = stdin w (Suc n + k))
            \<and> length (stdout w') = length (stdout w) + 2 * Suc n))"
proof (intro conjI allI impI)
  assume "\<not> (exists_path (fs w) default_path \<and> is_dir (fs w) default_path)"
  then show "find_rimworld_directory w =
      prompt_loop (say [Str ''RimWorld not found at default location: '', Pth default_path] w)"
    by (auto simp: find_rimworld_directory_def)
next
  fix p w' assume returned: "prompt_loop w = Some (Inr p, w')"
  from prompt_loop_returns_game_directory [OF returned]
  have same: "fs w' = fs w" and game: "game_directory (fs w) p"
    by blast+
  from same show "fs w' = fs w" .
  from same game show "exists_path (fs w') p" and "is_dir (fs w') p"
    and "exists_path (fs w') (p @ [''RimWorldWin64.exe''])
         \<or> exists_path (fs w') (p @ [''RimWorldWin.exe''])"
    by (simp_all add: game_directory_def)
next
  fix s assume "stdin w 0 = Line s \<and> \<not> game_directory (fs w) (typed_path w s)"
  then show "prompt_loop w = prompt_loop (rejected w s)"
    by (simp add: prompt_loop_rejects)
next
  fix n s
  assume "(\<forall>i<n. \<exists>r. stdin w i = Line r \<and> \<not> game_directory (fs w) (typed_path w r))
      \<and> stdin w n = Line s \<and> game_directory (fs w) (typed_path w s)"
  then show "\<exists>w'. prompt_loop w = Some (Inr (typed_path w s), w')
      \<and> (\<forall>k. stdin w' k = stdin w (Suc n + k))
      \<and> length (stdout w') = length (stdout w) + 2 * Suc n"
    by (intro prompt_loop_after_rejections) blast+
qed

text \<open>
  The theorem on the user who finds the game directory at the third attempt: the loop
  rejects the first line and returns the directory typed last, after six lines.
\<close>

theorem prompt_loop_third_attempt:
  "(\<exists>w'. prompt_loop lost_game = Some (Inr [''RimWorld''], w')
      \<and> length (stdout w') = 6 \<and> is_dir (fs w') [''RimWorld''])
   \<and> prompt_loop lost_game = prompt_loop (rejected lost_game ''nowhere'')"
proof -
  have paths: "typed_path lost_game ''nowhere'' = [''nowhere'']"
    "typed_path lost_game (CHR 0x22 # ''Elsewhere'' @ [CHR 0x22]) = [''Elsewhere'']"
    "typed_path lost_game (CHR 0x27 # ''RimWorld'' @ [CHR 0x27]) = [''RimWorld'']"
    by (simp_all add: typed_path_def lost_game_def quiet_def strip_chars_def)
  have dirs: "\<not> game_directory (fs lost_game) [''nowhere'']"
    "\<not> game_directory (fs lost_game) [''Elsewhere'']"
    "game_directory (fs lost_game) [''RimWorld'']"
    by (simp_all add: game_directory_def lost_game_def quiet_def exists_path_def)
  have typed: "stdin lost_game 0 = Line ''nowhere''"
    "stdin lost_game (Suc 0) = Line (CHR 0x22 # ''Elsewhere'' @ [CHR 0x22])"
    "stdin lost_game 2 = Line (CHR 0x27 # ''RimWorld'' @ [CHR 0x27])"
    by (simp_all add: lost_game_def quiet_def)
  have before: "\<forall>i<2. \<exists>r. stdin lost_game i = Line r
      \<and> \<not> game_directory (fs lost_game) (typed_path lost_game r)"
    using paths dirs typed by (simp add: numeral_2_eq_2 less_Suc_eq)
  note t = prompt_loop_returns_only_game_directories [of lost_game]
  have third: "(\<forall>i<2. \<exists>r. stdin lost_game i = Line r
        \<and> \<not> game_directory (fs lost_game) (typed_path lost_game r))
      \<and> stdin lost_game 2 = Line (CHR 0x27 # ''RimWorld'' @ [CHR 0x27])
      \<and> game_directory (fs lost_game) (typed_path lost_game (CHR 0x27 # ''RimWorld'' @ [CHR 0x27]))"
    using before typed(3) paths(3) dirs(3) by simp
  from t [THEN conjunct2, THEN conjunct2, THEN conjunct2, rule_format, OF third]
  obtain w' where w': "prompt_loop lost_game = Some (Inr [''RimWorld''], w')"
    "length (stdout w') = length (stdout lost_game) + 2 * Suc 2"
    using paths(3) by auto
  from t [THEN conjunct2, THEN conjunct1, rule_format, OF w'(1)]
  have dir: "is_dir (fs w') [''RimWorld'']" by blast
  have "length (stdout lost_game) = 0" by (simp add: lost_game_def quiet_def)
  with w'(2) have six: "length (stdout w') = 6" by simp
  have "stdin lost_game 0 = Line ''nowhere''
      \<and> \<not> game_directory (fs lost_game) (typed_path lost_game ''nowhere'')"
    using typed(1) paths(1) dirs(1) by simp
  from t [THEN conjunct2, THEN conjunct2, THEN conjunct1, rule_format, OF this]
  have again: "prompt_loop lost_game = prompt_loop (rejected lost_game ''nowhere'')" .
  from w'(1) six dir
  have "\<exists>w'. prompt_loop lost_game = Some (Inr [''RimWorld''], w')
      \<and> length (stdout w') = 6 \<and> is_dir (fs w') [''RimWorld'']"
    by blast
  then show ?thesis using again by (rule conjI)
qed

section \<open>The exit status of \<^verbatim>\<open>main\<close>\<close>

text \<open>
  Claim C5. \<^verbatim>\<open>main\<close> returns 1 when the installation of Harmony returns \<^verbatim>\<open>False\<close>, when
  the installation of RimWorld Access returns \<^verbatim>\<open>False\<close>, and when an interrupt or any other
  exception leaves one of its steps (both handlers return 1). When both installations
  return \<^verbatim>\<open>True\<close> and \<^verbatim>\<open>update_mods_config\<close> returns, \<^verbatim>\<open>main\<close> returns 0 whether that result
  is \<^verbatim>\<open>True\<close> or \<^verbatim>\<open>False\<close>. Each conjunct follows the run up to the step it is about.
\<close>

theorem main_exit_status:
  "(\<forall>e w1.
      find_rimworld_directory (say [Str ''RimWorld Access Mod Installer''] w) = Some (Inl e, w1) \<longrightarrow>
      main w = Some (main_handler e w1))
   \<and> (\<forall>p w1 w2.
      find_rimworld_directory (say [Str ''RimWorld Access Mod Installer''] w) = Some (Inr p, w1)
      \<and> install_harmony_mod p w1 = (Inr False, w2) \<longrightarrow>
      main w = Some (1, say [Str (CHR 0x0A # ''Failed to install Harmony mod. Installation aborted.'')] w2))
   \<and> (\<forall>p w1 e w2.
      find_rimworld_directory (say [Str ''RimWorld Access Mod Installer''] w) = Some (Inr p, w1)
      \<and> install_harmony_mod p w1 = (Inl e, w2) \<longrightarrow>
      main w = Some (main_handler e w2))
   \<and> (\<forall>p w1 w2 e w3.
      find_rimworld_directory (say [Str ''RimWorld Access Mod Installer''] w) = Some (Inr p, w1)
      \<and> install_harmony_mod p w1 = (Inr True, w2)
      \<and> choose_release_type (version_menu w2) = Some (Inl e, w3) \<longrightarrow>
      main w = Some (main_handler e w3))
   \<and> (\<forall>p w1 w2 release_type w3 w4.
      find_rimworld_directory (say [Str ''RimWorld Access Mod Installer''] w) = Some (Inr p, w1)
      \<and> install_harmony_mod p w1 = (Inr True, w2)
      \<and> choose_release_type (version_menu w2) = Some (Inr release_type, w3)
      \<and> install_rimworld_access_mod p release_type w3 = (Inr False, w4) \<longrightarrow>
      main w = Some (1, say [Str (CHR 0x0A #
                 ''Failed to install RimWorld Access mod. Installation aborted.'')] w4))
   \<and> (\<forall>p w1 w2 release_type w3 e w4.
      find_rimworld_directory (say [Str ''RimWorld Access Mod Installer''] w) = Some (Inr p, w1)
      \<and> install_harmony_mod p w1 = (Inr True, w2)
      \<and> choose_release_type (version_menu w2) = Some (Inr release_type, w3)
      \<and> install_rimworld_access_mod p release_type w3 = (Inl e, w4) \<longrightarrow>
      main w = Some (main_handler e w4))
   \<and> (\<forall>p w1 w2 release_type w3 w4 config_ok w5.
      find_rimworld_directory (say [Str ''RimWorld Access Mod Installer''] w) = Some (Inr p, w1)
      \<and> install_harmony_mod p w1 = (Inr True, w2)
      \<and> choose_release_type (version_menu w2) = Some (Inr release_type, w3)
      \<and> install_rimworld_access_mod p release_type w3 = (Inr True, w4)
      \<and> update_mods_config p w4 = (Inr config_ok, w5) \<longrightarrow>
      main w = Some (0, say [Str ''Installation complete!''] w5))
   \<and> (\<forall>p w1 w2 release_type w3 w4 e w5.
      find_rimworld_directory (say [Str ''RimWorld Access Mod Installer''] w) = Some (Inr p, w1)
      \<and> install_harmony_mod p w1 = (Inr True, w2)
      \<and> choose_release_type (version_menu w2) = Some (Inr release_type, w3)
      \<and> install_rimworld_access_mod p release_type w3 = (Inr True, w4)
      \<and> update_mods_config p w4 = (Inl e, w5) \<longrightarrow>
      main w = Some (main_handler e w5))
   \<and> (\<forall>e v. fst (main_handler e v) = 1)"
  by (simp add: main_def main_handler_def split: exn.splits)

text \<open>
  The theorem on three runs: one where both installations succeed, the choice of the
  version is typed with white space around it (a no-break space before, a space after)
  and the configuration file cannot be parsed, which ends with status 0 after the error
  was reported; one where the download of Harmony breaks; and one interrupted at the
  question for the version. The last two end with status 1.
\<close>

theorem main_exit_status_witness:
  "(\<exists>w'. main full_install = Some (0, w')
      \<and> last (butlast (stdout w'))
          = [Str ''Error updating ModsConfig.xml: '', Err (Exception ''ParseError'')])
   \<and> (\<exists>w'. main cut_off_install = Some (1, w'))
   \<and> (\<exists>w'. main (full_install\<lparr>stdin := \<lambda>n. Interrupt\<rparr>) = Some (1, w'))"
proof (intro conjI)
  define start where "start = say [Str ''RimWorld Access Mod Installer''] full_install"
  define found where "found = say [Str ''Found RimWorld at: '', Pth default_path] start"
  define installed where "installed = snd (install_harmony_mod default_path found)"
  define asked where "asked =
     say [Str ''Will download the latest stable release.'']
       ((say [Str (CHR 0x0A # ''Enter your choice (1/2/3): '')] (version_menu installed))
          \<lparr>stdin := \<lambda>n. stdin (version_menu installed) (Suc n)\<rparr>)"
  define both where "both = snd (install_rimworld_access_mod default_path ''stable'' asked)"
  define final where "final = snd (update_mods_config default_path both)"
  note first = harmony_on_full_install [of "stdin full_install", simplified,
      folded start_def found_def installed_def]
  have typed: "stdin full_install 0 = Line (CHR 0xC2 # CHR 0xA0 # ''1 '')"
    by (simp add: full_install_def)
  have libs: "cwd asked = cwd full_install" "home asked = home full_install"
    "http_json asked = http_json full_install" "http_stream asked = http_stream full_install"
    "unzip asked = unzip full_install" "xml_parse asked = xml_parse full_install"
    "fs asked = machine_tree [(''Harmony'', harmony_folder)] []"
    "listing_key asked = listing_key full_install"
    using first(3) first(4) by (simp_all add: asked_def version_menu_def unchanged_def)
  have harmony: "install_harmony_mod default_path found = (Inr True, installed)"
    unfolding installed_def using first(2) by (rule pair_fst_snd)
  have "stdin (version_menu installed) 0 = Line (CHR 0xC2 # CHR 0xA0 # ''1 '')"
    using first(4) typed by (simp add: version_menu_def unchanged_def)
  then have chosen: "choose_release_type (version_menu installed) = Some (Inr ''stable'', asked)"
    unfolding asked_def
    by (rule choose_release_type_stable) (simp add: strip_def whitespace_def drop_leading.simps)
  note second = access_on_full_install [of asked, OF libs(7) libs(1) libs(3) libs(4) libs(5) libs(8),
      folded both_def]
  have access: "install_rimworld_access_mod default_path ''stable'' asked = (Inr True, both)"
    unfolding both_def using second(1) by (rule pair_fst_snd)
  have kept: "unchanged asked both"
    unfolding both_def by (rule install_rimworld_access_mod_unchanged)
  have "lookup (fs both) (config_file both) = Some (File ''<old/>'')"
    using kept second(2) libs(2)
    by (simp add: unchanged_def config_file_def config_dir_def full_install_def machine_def
        quiet_def machine_tree_def)
  moreover have "xml_parse both ''<old/>'' = Inl (Exception ''ParseError'')"
    using kept libs(6) by (simp add: unchanged_def full_install_def machine_def quiet_def)
  ultimately have config: "update_mods_config default_path both =
     (Inr False,
      say [Str ''Error updating ModsConfig.xml: '', Err (Exception ''ParseError'')]
        (say [Str (CHR 0x0A # '' Updating ModsConfig.xml '')] both))"
    by (rule update_mods_config_parse_error)
  from first(1) harmony chosen access config
  have "main full_install =
      Some (0, say [Str ''Installation complete!'']
        (say [Str ''Error updating ModsConfig.xml: '', Err (Exception ''ParseError'')]
           (say [Str (CHR 0x0A # '' Updating ModsConfig.xml '')] both)))"
    unfolding start_def
    by (intro main_exit_status [of full_install, THEN conjunct2, THEN conjunct2, THEN conjunct2,
          THEN conjunct2, THEN conjunct2, THEN conjunct2, THEN conjunct1, rule_format]) blast
  then show "\<exists>w'. main full_install = Some (0, w')
      \<and> last (butlast (stdout w'))
          = [Str ''Error updating ModsConfig.xml: '', Err (Exception ''ParseError'')]"
    by (simp add: butlast_append)
next
  define start where "start = say [Str ''RimWorld Access Mod Installer''] cut_off_install"
  define found where "found = say [Str ''Found RimWorld at: '', Pth default_path] start"
  define failed where "failed = snd (install_harmony_mod default_path found)"
  have located: "find_rimworld_directory start = Some (Inr default_path, found)"
    by (simp add: start_def found_def find_rimworld_directory_def cut_off_install_def
        broken_download_def run_defs)
  have "fst (install_harmony_mod default_path found) = Inr False"
    by (simp add: start_def found_def cut_off_install_def broken_download_def run_defs)
  then have harmony: "install_harmony_mod default_path found = (Inr False, failed)"
    unfolding failed_def by (rule pair_fst_snd)
  from located harmony
  have "main cut_off_install =
      Some (1, say [Str (CHR 0x0A # ''Failed to install Harmony mod. Installation aborted.'')] failed)"
    unfolding start_def
    by (intro main_exit_status [of cut_off_install, THEN conjunct2, THEN conjunct1, rule_format])
      blast
  then show "\<exists>w'. main cut_off_install = Some (1, w')" by simp
next
  let ?world = "full_install\<lparr>stdin := \<lambda>n. Interrupt\<rparr>"
  define start where "start = say [Str ''RimWorld Access Mod Installer''] ?world"
  define found where "found = say [Str ''Found RimWorld at: '', Pth default_path] start"
  define installed where "installed = snd (install_harmony_mod default_path found)"
  define asked where "asked =
     (say [Str (CHR 0x0A # ''Enter your choice (1/2/3): '')] (version_menu installed))
        \<lparr>stdin := \<lambda>n. stdin (version_menu installed) (Suc n)\<rparr>"
  note first = harmony_on_full_install [of "\<lambda>n. Interrupt",
      folded start_def found_def installed_def]
  have harmony: "install_harmony_mod default_path found = (Inr True, installed)"
    unfolding installed_def using first(2) by (rule pair_fst_snd)
  have "stdin (version_menu installed) 0 = Interrupt"
    using first(4) by (simp add: version_menu_def unchanged_def)
  then have chosen: "choose_release_type (version_menu installed) = Some (Inl KeyboardInterrupt, asked)"
    unfolding asked_def by (rule choose_release_type_interrupted)
  from first(1) harmony chosen
  have "main ?world = Some (main_handler KeyboardInterrupt asked)"
    unfolding start_def
    by (intro main_exit_status [of ?world, THEN conjunct2, THEN conjunct2, THEN conjunct2,
          THEN conjunct1, rule_format]) blast
  then show "\<exists>w'. main ?world = Some (1, w')"
    by (simp add: main_handler_def)
qed

section \<open>Claim C6: installing again replaces the installed folder\<close>




section \<open>Claim C3: the temporary files on the failing paths\<close>

text \<open>
  Claim C3. Every path out of an installation, successful or failing, is said to delete
  the temporary directory and the downloaded archive. The path after a failed download
  (\<^verbatim>\<open>return False\<close> right after \<^verbatim>\<open>download_file\<close>) deletes nothing, and the path after a
  failed extraction deletes the archive only; the two later paths delete both. When the
  download of Harmony is cut off after its first chunk, the installation returns False and
  the partial archive is still in the working directory; when the archive cannot be
  unpacked to the end, the installation returns False, the archive is gone, and the
  temporary directory is still there with what was unpacked.
\<close>

theorem failed_install_leaves_temporary_files:
  "fst (install_harmony_mod default_path cut_off_install) = Inr False
   \<and> lookup (fs (snd (install_harmony_mod default_path cut_off_install)))
         [''C:'', ''work'', ''HarmonyMod.zip''] = Some (File ''PK'')
   \<and> fst (install_harmony_mod default_path damaged_archive) = Inr False
   \<and> lookup (fs (snd (install_harmony_mod default_path damaged_archive)))
         [''C:'', ''work'', ''HarmonyMod.zip''] = None
   \<and> lookup (fs (snd (install_harmony_mod default_path damaged_archive)))
         [''C:'', ''work'', ''temp_harmony'']
       = Some (Dir [(''Harmony'', Dir [(''About'', File ''x'')])])"
  by (simp add: cut_off_install_def broken_download_def damaged_archive_def full_install_def
      os_error_def run_defs)

end
